theory Spec2Isabelle
  imports Main
begin

section \<open>Python values\<close>

text \<open>
  The program is a single Python module, \<^verbatim>\<open>main.py\<close>. A Python \<^verbatim>\<open>str\<close> is modelled
  by HOL's \<^typ>\<open>string\<close>, the list of its characters. The values that \<^verbatim>\<open>json.loads\<close>
  produces, and the \<^verbatim>\<open>None\<close> that \<^verbatim>\<open>dict.get\<close> and \<^verbatim>\<open>form.get\<close> return for a
  missing key, are the datatype \<open>pyval\<close>; a dict keeps its items in insertion order.
  JSON numbers with a fraction or an exponent (Python floats) are outside the model.
\<close>

datatype pyval =
    PNone
  | PBool bool
  | PInt int
  | PStr string
  | PList "pyval list"
  | PDict "(string \<times> pyval) list"

text \<open>Truth value testing, as \<^verbatim>\<open>not x\<close> and \<^verbatim>\<open>if x\<close> apply it.\<close>

fun truthy :: "pyval \<Rightarrow> bool" where
  "truthy PNone = False"
| "truthy (PBool b) = b"
| "truthy (PInt i) = (i \<noteq> 0)"
| "truthy (PStr s) = (s \<noteq> [])"
| "truthy (PList xs) = (xs \<noteq> [])"
| "truthy (PDict kvs) = (kvs \<noteq> [])"

subsection \<open>Indexing: \<^verbatim>\<open>str.find\<close>, \<^verbatim>\<open>str.rfind\<close> and slices\<close>

text \<open>
  \<^verbatim>\<open>text.find(c)\<close> is the lowest index of the character, \<^verbatim>\<open>text.rfind(c)\<close> the
  highest, and both are \<open>-1\<close> when the character does not occur.
\<close>

fun py_find :: "string \<Rightarrow> char \<Rightarrow> int" where
  "py_find [] c = -1"
| "py_find (x # xs) c =
     (if x = c then 0
      else (let r = py_find xs c in if r < 0 then -1 else r + 1))"

fun py_rfind :: "string \<Rightarrow> char \<Rightarrow> int" where
  "py_rfind [] c = -1"
| "py_rfind (x # xs) c =
     (let r = py_rfind xs c in
      if 0 \<le> r then r + 1 else if x = c then 0 else -1)"

text \<open>
  A slice bound that is negative counts from the end; after that it is clamped to the
  range from 0 to the length. \<^verbatim>\<open>text[a:b]\<close> is empty when the start is not
  before the stop.
\<close>

definition slice_index :: "nat \<Rightarrow> int \<Rightarrow> nat" where
  "slice_index n i = (if i < 0 then nat (max (i + int n) 0) else min (nat i) n)"

definition py_slice :: "'a list \<Rightarrow> int \<Rightarrow> int \<Rightarrow> 'a list" where
  "py_slice xs a b =
     (let lo = slice_index (length xs) a; hi = slice_index (length xs) b
      in take (hi - lo) (drop lo xs))"

section \<open>The market table and the classifier\<close>

definition MARKET_KEY_items :: "(string \<times> string) list" where
  "MARKET_KEY_items =
    [(''1020'', ''Corporate''), (''1060'', ''IT&S''), (''5500'', ''East Texas''), (''5501'', ''East Texas''),
     (''5504'', ''East Texas''), (''5505'', ''East Texas''), (''5510'', ''East Texas''), (''5515'', ''East Texas''),
     (''5520'', ''East Texas''), (''5525'', ''East Texas''), (''5530'', ''East Texas''), (''5535'', ''East Texas''),
     (''5540'', ''East Texas''), (''5550'', ''East Texas''), (''5400'', ''Idaho''), (''5404'', ''Idaho''),
     (''5405'', ''Idaho''), (''5480'', ''Kansas''), (''5430'', ''New Jersey''), (''5440'', ''New Jersey''),
     (''1500'', ''New Mexico''), (''5050'', ''New Mexico''), (''5055'', ''New Mexico''), (''5061'', ''New Mexico''),
     (''5070'', ''New Mexico''), (''5082'', ''New Mexico''), (''5125'', ''New Mexico''),
     (''1600'', ''Oklahoma''), (''5200'', ''Oklahoma''), (''5201'', ''Oklahoma''), (''5210'', ''Oklahoma''),
     (''5230'', ''Oklahoma''), (''5251'', ''Oklahoma''), (''5260'', ''Oklahoma''), (''5265'', ''Oklahoma''),
     (''5270'', ''Oklahoma''), (''5275'', ''Oklahoma''), (''5280'', ''Oklahoma''), (''5300'', ''West Texas''),
     (''5301'', ''West Texas''), (''5310'', ''West Texas''), (''5311'', ''West Texas''), (''5316'', ''West Texas''),
     (''5320'', ''West Texas''), (''5410'', ''West Texas''), (''5415'', ''West Texas'')]"

text \<open>
  The dict literal has no key twice (\<open>MARKET_KEY_distinct\<close> below), so looking a key up
  in the list of its items is \<^verbatim>\<open>MARKET_KEY.get\<close>.
\<close>

definition MARKET_KEY :: "string \<rightharpoonup> string" where
  "MARKET_KEY = map_of MARKET_KEY_items"

text \<open>
  \<^verbatim>\<open>
  def get_market_from_cer(cer_number):
      if isinstance(cer_number, str) and len(cer_number) >= 4:
          return MARKET_KEY.get(cer_number[:4], "No Match")
      return "No Match"
  \<close>
\<close>

fun get_market_from_cer :: "pyval \<Rightarrow> string" where
  "get_market_from_cer (PStr cer_number) =
     (if length cer_number \<ge> 4
      then (case MARKET_KEY (py_slice cer_number 0 4) of
              Some market \<Rightarrow> market
            | None \<Rightarrow> ''No Match'')
      else ''No Match'')"
| "get_market_from_cer _ = ''No Match''"

section \<open>The extraction client: cleaning the response\<close>

text \<open>
  \<^verbatim>\<open>
  def clean_json_response(self, text):
      match = text[text.find('{'):text.rfind('}')+1]
      return match if match else "{}"
  \<close>
\<close>

definition clean_json_response :: "string \<Rightarrow> string" where
  "clean_json_response text =
     (let match = py_slice text (py_find text CHR ''{'') (py_rfind text CHR ''}'' + 1)
      in if match \<noteq> [] then match else ''{}'')"

section \<open>Rendering values: \<^verbatim>\<open>str\<close> and \<^verbatim>\<open>repr\<close>\<close>

text \<open>
  \<^verbatim>\<open>str\<close> of an integer is its decimal numeral, with a minus sign when negative.
\<close>

fun str_nat :: "nat \<Rightarrow> string" where
  "str_nat n =
     (if n < 10 then [''0123456789'' ! n]
      else str_nat (n div 10) @ [''0123456789'' ! (n mod 10)])"

declare str_nat.simps [simp del]

definition str_int :: "int \<Rightarrow> string" where
  "str_int i = (if i < 0 then CHR ''-'' # str_nat (nat (- i)) else str_nat (nat i))"

text \<open>
  \<^verbatim>\<open>repr\<close> of a string quotes it, with double quotes only when the string has a
  single quote and no double quote, and escapes the quote, the backslash and the
  characters that are not printable. Characters are the code points below 256.
\<close>

definition hex2 :: "nat \<Rightarrow> string" where
  "hex2 n = [''0123456789abcdef'' ! (n div 16), ''0123456789abcdef'' ! (n mod 16)]"

definition repr_char :: "char \<Rightarrow> char \<Rightarrow> string" where
  "repr_char quote c =
     (let n = (of_char c :: nat) in
      if c = quote \<or> c = CHR 0x5C then [CHR 0x5C, c]
      else if c = CHR 0x09 then [CHR 0x5C, CHR ''t'']
      else if c = CHR 0x0A then [CHR 0x5C, CHR ''n'']
      else if c = CHR 0x0D then [CHR 0x5C, CHR ''r'']
      else if n < 32 \<or> n = 127 \<or> (128 \<le> n \<and> n \<le> 160) \<or> n = 173
        then [CHR 0x5C, CHR ''x''] @ hex2 n
      else [c])"

definition repr_str :: "string \<Rightarrow> string" where
  "repr_str s =
     (let quote = (if CHR 0x27 \<in> set s \<and> CHR 0x22 \<notin> set s then CHR 0x22 else CHR 0x27)
      in quote # concat (map (repr_char quote) s) @ [quote])"

fun py_join :: "string \<Rightarrow> string list \<Rightarrow> string" where
  "py_join sep [] = []"
| "py_join sep [x] = x"
| "py_join sep (x # y # ys) = x @ sep @ py_join sep (y # ys)"

primrec py_repr :: "pyval \<Rightarrow> string" where
  "py_repr PNone = ''None''"
| "py_repr (PBool b) = (if b then ''True'' else ''False'')"
| "py_repr (PInt i) = str_int i"
| "py_repr (PStr s) = repr_str s"
| "py_repr (PList xs) = ''['' @ py_join '', '' (map py_repr xs) @ '']''"
| "py_repr (PDict kvs) =
     ''{'' @ py_join '', '' (map (\<lambda>kv. repr_str (fst kv) @ '': '' @ snd kv)
                                (map (map_prod id py_repr) kvs)) @ ''}''"

text \<open>\<^verbatim>\<open>str(x)\<close> is the string itself for a string and \<^verbatim>\<open>repr(x)\<close> otherwise.\<close>

fun py_str :: "pyval \<Rightarrow> string" where
  "py_str (PStr s) = s"
| "py_str v = py_repr v"

fun type_name :: "pyval \<Rightarrow> string" where
  "type_name PNone = ''NoneType''"
| "type_name (PBool b) = ''bool''"
| "type_name (PInt i) = ''int''"
| "type_name (PStr s) = ''str''"
| "type_name (PList xs) = ''list''"
| "type_name (PDict kvs) = ''dict''"

subsection \<open>\<^verbatim>\<open>str.strip\<close>\<close>

text \<open>The characters below 256 that \<^verbatim>\<open>str.isspace\<close> accepts.\<close>

definition is_space :: "char \<Rightarrow> bool" where
  "is_space c =
     (let n = (of_char c :: nat)
      in (9 \<le> n \<and> n \<le> 13) \<or> (28 \<le> n \<and> n \<le> 32) \<or> n = 133 \<or> n = 160)"

definition py_strip :: "string \<Rightarrow> string" where
  "py_strip s = rev (dropWhile is_space (rev (dropWhile is_space s)))"

subsection \<open>Dicts\<close>

text \<open>\<^verbatim>\<open>d.get(k, default)\<close> and the assignment \<^verbatim>\<open>d[k] = v\<close>.\<close>

definition dict_get :: "(string \<times> pyval) list \<Rightarrow> string \<Rightarrow> pyval \<Rightarrow> pyval" where
  "dict_get d k dflt = (case map_of d k of Some v \<Rightarrow> v | None \<Rightarrow> dflt)"

fun dict_set :: "(string \<times> pyval) list \<Rightarrow> string \<Rightarrow> pyval \<Rightarrow> (string \<times> pyval) list" where
  "dict_set [] k v = [(k, v)]"
| "dict_set ((k', v') # d) k v =
     (if k' = k then (k, v) # d else (k', v') # dict_set d k v)"

section \<open>Exceptions\<close>

text \<open>
  An exception is a value: its class and the text that \<^verbatim>\<open>str(e)\<close> gives. Every
  class of the model derives from \<^verbatim>\<open>Exception\<close>, so \<^verbatim>\<open>except Exception\<close> catches
  each of them. \<^verbatim>\<open>dateutil\<close>'s \<^verbatim>\<open>ParserError\<close> and \<^verbatim>\<open>json\<close>'s
  \<^verbatim>\<open>JSONDecodeError\<close> derive from \<^verbatim>\<open>ValueError\<close>; \<open>OtherException\<close> stands for
  any further class, by name, that derives from none of the classes listed.
\<close>

datatype exc_class =
    ValueError
  | ParserError
  | JSONDecodeError
  | TypeError
  | AttributeError
  | OverflowError
  | WorksheetNotFound
  | SpreadsheetNotFound
  | APIError
  | OtherException string

datatype exc = Exc (exc_type: exc_class) (exc_msg: string)

fun is_ValueError :: "exc_class \<Rightarrow> bool" where
  "is_ValueError ValueError = True"
| "is_ValueError ParserError = True"
| "is_ValueError JSONDecodeError = True"
| "is_ValueError _ = False"

definition attribute_error :: "pyval \<Rightarrow> string \<Rightarrow> exc" where
  "attribute_error v attr =
     Exc AttributeError
       ([CHR 0x27] @ type_name v @ [CHR 0x27] @ '' object has no attribute ''
        @ [CHR 0x27] @ attr @ [CHR 0x27])"

section \<open>The date normaliser\<close>

text \<open>
  \<^verbatim>\<open>dateutil.parser.parse(s, fuzzy=True)\<close> is a library function: it is a parameter of
  the model, which returns the parsed date or the exception it raises. Only the year,
  the month and the day of the result are read.
\<close>

record datetime =
  year :: int
  month :: int
  day :: int

type_synonym parser = "string \<Rightarrow> exc + datetime"

text \<open>
  \<^verbatim>\<open>
  def format_date_string(date_str):
      if not date_str:
          return ""
      try:
          dt_object = parse(date_str.strip(), fuzzy=True)
          return f"{dt_object.month}/{dt_object.day}/{dt_object.year}"
      except (ValueError, TypeError):
          return date_str
  \<close>
  A value that is not a string and not falsy has no \<^verbatim>\<open>strip\<close>: the
  \<^verbatim>\<open>AttributeError\<close> is not among the classes caught.
\<close>

definition format_date_string :: "parser \<Rightarrow> pyval \<Rightarrow> exc + pyval" where
  "format_date_string parse date_str =
     (if \<not> truthy date_str then Inr (PStr '''')
      else (case date_str of
              PStr s \<Rightarrow>
                (case parse (py_strip s) of
                   Inr dt_object \<Rightarrow>
                     Inr (PStr (str_int (month dt_object) @ ''/'' @ str_int (day dt_object)
                                @ ''/'' @ str_int (year dt_object)))
                 | Inl e \<Rightarrow>
                     if is_ValueError (exc_type e) \<or> exc_type e = TypeError
                     then Inr date_str else Inl e)
            | _ \<Rightarrow> Inl (attribute_error date_str ''strip'')))"

section \<open>The outside world\<close>

text \<open>
  The module talks to three services and reads three environment variables. What they
  answer is a parameter of the model, the record \<open>env\<close>: every call returns its result
  or the exception it raises.
  \<^item> \<open>genai_configure\<close>: \<^verbatim>\<open>genai.configure\<close> and \<^verbatim>\<open>genai.GenerativeModel\<close>, given
    the API key; \<open>Some e\<close> when they raise.
  \<^item> \<open>generate_content\<close>: \<^verbatim>\<open>self.model.generate_content(prompt)\<close> followed by
    \<^verbatim>\<open>response.text\<close>.
  \<^item> \<open>json_loads\<close>: \<^verbatim>\<open>json.loads\<close>.
  \<^item> \<open>parse_fuzzy\<close>: \<^verbatim>\<open>dateutil.parser.parse(s, fuzzy=True)\<close>.
  \<^item> \<open>authorize\<close>: \<^verbatim>\<open>Credentials.from_service_account_info\<close> and
    \<^verbatim>\<open>gspread.authorize\<close>, given the parsed credentials.
  \<^item> \<open>api_fault\<close>: the failure, if any, of a call to the spreadsheet service that has
    nothing to do with the contents of the spreadsheets (network, quota, permissions).
\<close>

datatype api_call =
    Open_spreadsheet string
  | Get_worksheet string pyval
  | Add_worksheet string pyval
  | Append_row string pyval "pyval list"

record env =
  GEMINI_API_KEY :: "string option"
  GOOGLE_CREDENTIALS_JSON :: "string option"
  GOOGLE_SHEET_NAME :: "string option"
  genai_configure :: "string \<Rightarrow> exc option"
  generate_content :: "string \<Rightarrow> exc + string"
  json_loads :: "string \<Rightarrow> exc + pyval"
  parse_fuzzy :: parser
  authorize :: "pyval \<Rightarrow> exc option"
  api_fault :: "api_call \<Rightarrow> exc option"

text \<open>
  What the module changes is the record \<open>world\<close>: the spreadsheets of the service, by
  name, each a map from the title of a worksheet tab to its rows, and the lines printed
  to standard output. A printed line is kept as the \<^verbatim>\<open>print\<close> statement that wrote it
  together with the values it interpolates.
\<close>

datatype log_line =
    Webhook_received
  | Api_configuration_error exc
  | Connecting
  | Connection_successful
  | Opening_spreadsheet string
  | Spreadsheet_opened
  | Market_determined pyval
  | Found_worksheet pyval
  | Creating_worksheet pyval
  | Header_added
  | Preparing_row "pyval list"
  | Wrote_data pyval
  | Sheet_update_failed exc
  | Cer_missing
  | Critical_error exc

type_synonym spreadsheet = "pyval \<rightharpoonup> pyval list list"

record world =
  sheets :: "string \<rightharpoonup> spreadsheet"
  stdout :: "log_line list"

definition print_line :: "log_line \<Rightarrow> world \<Rightarrow> world" where
  "print_line l w = w\<lparr>stdout := stdout w @ [l]\<rparr>"

section \<open>The extraction client\<close>

text \<open>
  \<^verbatim>\<open>
  def __init__(self):
      try:
          api_key = os.getenv("GEMINI_API_KEY")
          if not api_key:
              raise ValueError("GEMINI_API_KEY not found in environment variables.")
          genai.configure(api_key=api_key)
          self.model = genai.GenerativeModel('gemini-1.5-flash-latest')
      except Exception as e:
          print(f"API Configuration Error: {e}")
          raise
  \<close>
\<close>

definition GeminiProcessor_init_try :: "env \<Rightarrow> exc + unit" where
  "GeminiProcessor_init_try env =
     (case GEMINI_API_KEY env of
        None \<Rightarrow> Inl (Exc ValueError ''GEMINI_API_KEY not found in environment variables.'')
      | Some api_key \<Rightarrow>
          if api_key = []
          then Inl (Exc ValueError ''GEMINI_API_KEY not found in environment variables.'')
          else (case genai_configure env api_key of
                  Some e \<Rightarrow> Inl e
                | None \<Rightarrow> Inr ()))"

definition GeminiProcessor_init :: "env \<Rightarrow> world \<Rightarrow> (exc + unit) \<times> world" where
  "GeminiProcessor_init env w =
     (case GeminiProcessor_init_try env of
        Inl e \<Rightarrow> (Inl e, print_line (Api_configuration_error e) w)
      | Inr u \<Rightarrow> (Inr u, w))"

text \<open>The instruction prompt: a triple-quoted literal, each line indented by eight blanks.\<close>

definition prompt_lines :: "string list" where
  \<open>prompt_lines =
    [''Analyze the email content. Extract the following fields:'',
     ''- "Forwarded Date": The 'Sent' date from the Tim Huffman email. Format it strictly as YYYY-MM-DD.'',
     ''- "Ardent CER#": The Capital Equipment Request number, often following "CER:".'',
     ''- "Notes": A concise project description (e.g., "ED Expansion", "OR Tables").'',
     ''- "Capital $": A number only, converting 'k' to thousands (e.g., $315k becomes 315000).'',
     ''- "ETA/Install": The estimated arrival or installation date/quarter.'',
     ''- "Mfg": Based on the notes and content, infer the Manufacturer.'',
     ''- "Model": Based on the notes and content, infer the specific Model.'',
     ''- "URL": The ERP link, which is a URL usually starting with "http".'',
     ''Return a single, minified JSON object. If a field is not found, use an empty string "".'',
     ''---'',
     ''Email Content:'']\<close>

definition prompt_text :: string where
  "prompt_text =
     [CHR 0x0A] @ concat (map (\<lambda>l. ''        '' @ l @ [CHR 0x0A]) prompt_lines) @ ''        ''"

text \<open>
  \<^verbatim>\<open>
  def extract_data_from_email(self, email_body):
      prompt = """...""" + email_body
      try:
          response = self.model.generate_content(prompt)
          return json.loads(self.clean_json_response(response.text))
      except Exception as e:
          raise ValueError(f"Gemini API call or JSON parsing failed: {e}")
  \<close>
\<close>

definition extraction_failed :: "exc \<Rightarrow> exc" where
  "extraction_failed e = Exc ValueError (''Gemini API call or JSON parsing failed: '' @ exc_msg e)"

definition extract_data_from_email :: "env \<Rightarrow> string \<Rightarrow> exc + pyval" where
  "extract_data_from_email env email_body =
     (let prompt = prompt_text @ email_body in
      case generate_content env prompt of
        Inl e \<Rightarrow> Inl (extraction_failed e)
      | Inr response_text \<Rightarrow>
          (case json_loads env (clean_json_response response_text) of
             Inl e \<Rightarrow> Inl (extraction_failed e)
           | Inr v \<Rightarrow> Inr v))"

section \<open>The spreadsheet writer\<close>

text \<open>
  \<^verbatim>\<open>
  def get_gspread_client():
      creds_json = os.getenv('GOOGLE_CREDENTIALS_JSON')
      if not creds_json:
          raise ValueError("GOOGLE_CREDENTIALS_JSON environment variable not set.")
      creds_dict = json.loads(creds_json)
      ...
      creds = Credentials.from_service_account_info(creds_dict, scopes=scopes)
      client = gspread.authorize(creds)
      return client
  \<close>
\<close>

definition get_gspread_client :: "env \<Rightarrow> exc + unit" where
  "get_gspread_client env =
     (case GOOGLE_CREDENTIALS_JSON env of
        None \<Rightarrow> Inl (Exc ValueError ''GOOGLE_CREDENTIALS_JSON environment variable not set.'')
      | Some creds_json \<Rightarrow>
          if creds_json = []
          then Inl (Exc ValueError ''GOOGLE_CREDENTIALS_JSON environment variable not set.'')
          else (case json_loads env creds_json of
                  Inl e \<Rightarrow> Inl e
                | Inr creds_dict \<Rightarrow>
                    (case authorize env creds_dict of
                       Some e \<Rightarrow> Inl e
                     | None \<Rightarrow> Inr ())))"

text \<open>
  The four calls to the spreadsheet service. \<^verbatim>\<open>client.open\<close> raises
  \<^verbatim>\<open>SpreadsheetNotFound\<close> for a name that no spreadsheet has, \<^verbatim>\<open>spreadsheet.worksheet\<close>
  raises \<^verbatim>\<open>WorksheetNotFound\<close> for a title that no tab has, \<^verbatim>\<open>add_worksheet\<close> adds an
  empty tab and is refused for a title in use, \<^verbatim>\<open>append_row\<close> adds the row after the
  last one.
\<close>

definition client_open :: "env \<Rightarrow> world \<Rightarrow> string \<Rightarrow> exc + unit" where
  "client_open env w sheet_name =
     (case api_fault env (Open_spreadsheet sheet_name) of
        Some e \<Rightarrow> Inl e
      | None \<Rightarrow>
          (case sheets w sheet_name of
             None \<Rightarrow> Inl (Exc SpreadsheetNotFound [])
           | Some tabs \<Rightarrow> Inr ()))"

definition spreadsheet_worksheet :: "env \<Rightarrow> world \<Rightarrow> string \<Rightarrow> pyval \<Rightarrow> exc + unit" where
  "spreadsheet_worksheet env w sheet_name title =
     (case api_fault env (Get_worksheet sheet_name title) of
        Some e \<Rightarrow> Inl e
      | None \<Rightarrow>
          (case sheets w sheet_name of
             None \<Rightarrow> Inl (Exc SpreadsheetNotFound [])
           | Some tabs \<Rightarrow>
               (case tabs title of
                  None \<Rightarrow> Inl (Exc WorksheetNotFound (py_str title))
                | Some rows \<Rightarrow> Inr ())))"

definition spreadsheet_add_worksheet :: "env \<Rightarrow> world \<Rightarrow> string \<Rightarrow> pyval \<Rightarrow> exc + world" where
  "spreadsheet_add_worksheet env w sheet_name title =
     (case api_fault env (Add_worksheet sheet_name title) of
        Some e \<Rightarrow> Inl e
      | None \<Rightarrow>
          (case sheets w sheet_name of
             None \<Rightarrow> Inl (Exc SpreadsheetNotFound [])
           | Some tabs \<Rightarrow>
               (case tabs title of
                  Some rows \<Rightarrow> Inl (Exc APIError ''A sheet with that name already exists.'')
                | None \<Rightarrow> Inr (w\<lparr>sheets := (sheets w)(sheet_name \<mapsto> tabs(title \<mapsto> []))\<rparr>))))"

definition worksheet_append_row ::
  "env \<Rightarrow> world \<Rightarrow> string \<Rightarrow> pyval \<Rightarrow> pyval list \<Rightarrow> exc + world" where
  "worksheet_append_row env w sheet_name title row =
     (case api_fault env (Append_row sheet_name title row) of
        Some e \<Rightarrow> Inl e
      | None \<Rightarrow>
          (case sheets w sheet_name of
             None \<Rightarrow> Inl (Exc SpreadsheetNotFound [])
           | Some tabs \<Rightarrow>
               (case tabs title of
                  None \<Rightarrow> Inl (Exc WorksheetNotFound (py_str title))
                | Some rows \<Rightarrow>
                    Inr (w\<lparr>sheets := (sheets w)(sheet_name \<mapsto> tabs(title \<mapsto> rows @ [row]))\<rparr>))))"

definition header :: "pyval list" where
  "header = map PStr [''Forwarded Date'', ''Market'', ''Ardent CER#'', ''Capital $'', ''Notes'',
                      ''Mfg'', ''Model'', ''ETA/Install'', ''URL'', ''Source Email'']"

text \<open>
  The inner \<^verbatim>\<open>try\<close> of \<^verbatim>\<open>update_google_sheet\<close>: get the worksheet of the market, or
  create it with its header row when the lookup raised \<^verbatim>\<open>WorksheetNotFound\<close>.
  \<^verbatim>\<open>
  try:
      worksheet = spreadsheet.worksheet(market)
      print(f"-> Found existing worksheet tab: '{market}'")
  except gspread.WorksheetNotFound:
      print(f"-> Worksheet tab not found. Creating new tab: '{market}'")
      worksheet = spreadsheet.add_worksheet(title=market, rows="100", cols="20")
      header = [...]
      worksheet.append_row(header)
      print("-> Header row added to new worksheet.")
  \<close>
\<close>

definition get_or_create_worksheet ::
  "env \<Rightarrow> world \<Rightarrow> string \<Rightarrow> pyval \<Rightarrow> (exc + unit) \<times> world" where
  "get_or_create_worksheet env w sheet_name market =
     (case spreadsheet_worksheet env w sheet_name market of
        Inr u \<Rightarrow> (Inr (), print_line (Found_worksheet market) w)
      | Inl e \<Rightarrow>
          if exc_type e = WorksheetNotFound
          then (let w1 = print_line (Creating_worksheet market) w in
                case spreadsheet_add_worksheet env w1 sheet_name market of
                  Inl e1 \<Rightarrow> (Inl e1, w1)
                | Inr w2 \<Rightarrow>
                    (case worksheet_append_row env w2 sheet_name market header of
                       Inl e2 \<Rightarrow> (Inl e2, w2)
                     | Inr w3 \<Rightarrow> (Inr (), print_line Header_added w3)))
          else (Inl e, w))"

text \<open>The row that \<^verbatim>\<open>update_google_sheet\<close> prepares from the record.\<close>

definition row_to_add :: "(string \<times> pyval) list \<Rightarrow> pyval \<Rightarrow> pyval list" where
  "row_to_add data market =
     [dict_get data ''Forwarded Date'' (PStr ''''),
      market,
      dict_get data ''Ardent CER#'' (PStr ''''),
      dict_get data ''Capital $'' (PStr ''''),
      dict_get data ''Notes'' (PStr ''''),
      dict_get data ''Mfg'' (PStr ''''),
      dict_get data ''Model'' (PStr ''''),
      dict_get data ''ETA/Install'' (PStr ''''),
      dict_get data ''URL'' (PStr ''''),
      dict_get data ''Source Email'' (PStr '''')]"

text \<open>
  The body of the outer \<^verbatim>\<open>try\<close> of \<^verbatim>\<open>update_google_sheet\<close>, which returns the
  exception that ended it, if any, and the world as the calls made so far left it.
\<close>

definition update_google_sheet_try ::
  "env \<Rightarrow> world \<Rightarrow> (string \<times> pyval) list \<Rightarrow> (exc + unit) \<times> world" where
  "update_google_sheet_try env w data =
     (let w1 = print_line Connecting w in
      case get_gspread_client env of
        Inl e \<Rightarrow> (Inl e, w1)
      | Inr client \<Rightarrow>
     (let w2 = print_line Connection_successful w1;
          sheet_name = (case GOOGLE_SHEET_NAME env of None \<Rightarrow> ''CER_Report'' | Some n \<Rightarrow> n);
          w3 = print_line (Opening_spreadsheet sheet_name) w2 in
      case client_open env w3 sheet_name of
        Inl e \<Rightarrow> (Inl e, w3)
      | Inr spreadsheet \<Rightarrow>
     (let w4 = print_line Spreadsheet_opened w3;
          market = dict_get data ''Market'' (PStr ''Unknown'');
          w5 = print_line (Market_determined market) w4 in
      case get_or_create_worksheet env w5 sheet_name market of
        (Inl e, w6) \<Rightarrow> (Inl e, w6)
      | (Inr worksheet, w6) \<Rightarrow>
     (let row = row_to_add data market;
          w7 = print_line (Preparing_row row) w6 in
      case worksheet_append_row env w7 sheet_name market row of
        Inl e \<Rightarrow> (Inl e, w7)
      | Inr w8 \<Rightarrow> (Inr (), print_line (Wrote_data market) w8)))))"

text \<open>
  \<^verbatim>\<open>
  def update_google_sheet(data):
      try:
          ...
      except Exception as e:
          print(f"ERROR: Failed to update Google Sheet. Reason: {type(e).__name__} - {e}")
  \<close>
\<close>

definition update_google_sheet :: "env \<Rightarrow> world \<Rightarrow> (string \<times> pyval) list \<Rightarrow> world" where
  "update_google_sheet env w data =
     (case update_google_sheet_try env w data of
        (Inl e, w') \<Rightarrow> print_line (Sheet_update_failed e) w'
      | (Inr u, w') \<Rightarrow> w')"

section \<open>The webhook endpoint\<close>

text \<open>
  The request is its form: a map from field names to strings. A response is the text
  of its body and its HTTP status. The literal of the success response starts with a
  check mark, U+2705, which is written here as the three bytes of its UTF-8 encoding.
\<close>

type_synonym form = "string \<rightharpoonup> string"
type_synonym response = "string \<times> nat"

definition form_value :: "string option \<Rightarrow> pyval" where
  "form_value x = (case x of None \<Rightarrow> PNone | Some s \<Rightarrow> PStr s)"

definition success_text :: string where
  "success_text = [CHR 0xE2, CHR 0x9C, CHR 0x85] @ '' Success: Email processed and sheet updated.''"


text \<open>
  The three assignments that complete the record before it goes to the writer: the
  normalised date, the market of the request number, and the sender.
\<close>

definition augment_record ::
  "(string \<times> pyval) list \<Rightarrow> pyval \<Rightarrow> string \<Rightarrow> string option \<Rightarrow> (string \<times> pyval) list" where
  "augment_record d forwarded_date cer_number email_from =
     (let d1 = dict_set d ''Forwarded Date'' forwarded_date;
          d2 = dict_set d1 ''Market'' (PStr (get_market_from_cer (PStr cer_number)));
          d3 = dict_set d2 ''Source Email'' (form_value email_from)
      in d3)"

text \<open>
  The body of the \<^verbatim>\<open>try\<close> of \<^verbatim>\<open>handle_email\<close>:
  \<^verbatim>\<open>
  gemini = GeminiProcessor()
  extracted_data = gemini.extract_data_from_email(email_body)
  cer_number = str(extracted_data.get("Ardent CER#", ""))
  if not cer_number:
      print("Failed: Could not extract CER# from email.")
      return "Failed: Could not extract CER#.", 400
  extracted_data["Forwarded Date"] = format_date_string(extracted_data.get("Forwarded Date"))
  extracted_data["Market"] = get_market_from_cer(cer_number)
  extracted_data["Source Email"] = email_from
  update_google_sheet(extracted_data)
  return "Success: Email processed and sheet updated.", 200
  \<close>
  A value that is not a dict has no \<^verbatim>\<open>get\<close>.
\<close>

definition handle_email_try ::
  "env \<Rightarrow> world \<Rightarrow> string \<Rightarrow> string option \<Rightarrow> (exc + response) \<times> world" where
  "handle_email_try env w email_body email_from =
     (case GeminiProcessor_init env w of
        (Inl e, w1) \<Rightarrow> (Inl e, w1)
      | (Inr gemini, w1) \<Rightarrow>
     (case extract_data_from_email env email_body of
        Inl e \<Rightarrow> (Inl e, w1)
      | Inr extracted_data \<Rightarrow>
     (case extracted_data of
        PDict d \<Rightarrow>
          (let cer_number = py_str (dict_get d ''Ardent CER#'' (PStr '''')) in
           if cer_number = []
           then (Inr (''Failed: Could not extract CER#.'', 400), print_line Cer_missing w1)
           else (case format_date_string (parse_fuzzy env) (dict_get d ''Forwarded Date'' PNone) of
                   Inl e \<Rightarrow> (Inl e, w1)
                 | Inr forwarded_date \<Rightarrow>
                     (let data = augment_record d forwarded_date cer_number email_from;
                          w2 = update_google_sheet env w1 data
                      in (Inr (success_text, 200), w2))))
      | _ \<Rightarrow> (Inl (attribute_error extracted_data ''get''), w1))))"

text \<open>
  \<^verbatim>\<open>
  def handle_email():
      print("Webhook received a new email.")
      email_body = request.form.get('text')
      email_from = request.form.get('from')
      if not email_body:
          return "Failed: No email body content.", 400
      try:
          ...
      except Exception as e:
          print(f"CRITICAL ERROR during email processing: {e}")
          return f"Internal server error: {e}", 500
  \<close>
\<close>

definition handle_email :: "env \<Rightarrow> world \<Rightarrow> form \<Rightarrow> response \<times> world" where
  "handle_email env w request_form =
     (let w0 = print_line Webhook_received w;
          email_body = request_form ''text'';
          email_from = request_form ''from''
      in case email_body of
           None \<Rightarrow> ((''Failed: No email body content.'', 400), w0)
         | Some body \<Rightarrow>
             if body = [] then ((''Failed: No email body content.'', 400), w0)
             else (case handle_email_try env w0 body email_from of
                     (Inr resp, w') \<Rightarrow> (resp, w')
                   | (Inl e, w') \<Rightarrow>
                       ((''Internal server error: '' @ exc_msg e, 500),
                        print_line (Critical_error e) w')))"

section \<open>An example request\<close>

text \<open>
  A concrete environment, world and request, on which the definitions can be run: the
  extraction service answers with a JSON object wrapped in a sentence, the spreadsheet
  \<^verbatim>\<open>CER_Report\<close> exists and has no tab yet, and no call fails. The parser reads the
  ISO date of the example, raises \<^verbatim>\<open>OverflowError\<close> for a number too large for a
  C integer, as \<^verbatim>\<open>dateutil\<close> documents, and \<^verbatim>\<open>ParserError\<close> otherwise.
\<close>

definition example_json :: string where
  \<open>example_json = ''{"Forwarded Date":"2024-01-02","Ardent CER#":"5510-001","Notes":"OR Tables","Capital $":"315000","ETA/Install":"Q3","Mfg":"Stryker","Model":"T7","URL":"http://erp/1"}''\<close>

definition example_record :: "(string \<times> pyval) list" where
  "example_record =
     [(''Forwarded Date'', PStr ''2024-01-02''), (''Ardent CER#'', PStr ''5510-001''),
      (''Notes'', PStr ''OR Tables''), (''Capital $'', PStr ''315000''),
      (''ETA/Install'', PStr ''Q3''), (''Mfg'', PStr ''Stryker''),
      (''Model'', PStr ''T7''), (''URL'', PStr ''http://erp/1'')]"

definition example_reply :: string where
  "example_reply = ''Result: '' @ example_json @ '' Done.''"

definition example_json_loads :: "string \<Rightarrow> exc + pyval" where
  "example_json_loads s =
     (if s = example_json then Inr (PDict example_record)
      else if s = ''{}'' then Inr (PDict [])
      else Inl (Exc JSONDecodeError ''Expecting value: line 1 column 1 (char 0)''))"

definition example_parse :: parser where
  "example_parse s =
     (if s = ''2024-01-02'' then Inr \<lparr>year = 2024, month = 1, day = 2\<rparr>
      else if s = ''99999999999999999999''
        then Inl (Exc OverflowError ''Python int too large to convert to C int'')
      else Inl (Exc ParserError (''Unknown string format: '' @ s)))"

definition example_env :: env where
  "example_env =
     \<lparr>GEMINI_API_KEY = Some ''key'',
      GOOGLE_CREDENTIALS_JSON = Some ''{}'',
      GOOGLE_SHEET_NAME = None,
      genai_configure = (\<lambda>api_key. None),
      generate_content = (\<lambda>prompt. Inr example_reply),
      json_loads = example_json_loads,
      parse_fuzzy = example_parse,
      authorize = (\<lambda>creds. None),
      api_fault = (\<lambda>call. None)\<rparr>"

definition example_world :: world where
  "example_world = \<lparr>sheets = [''CER_Report'' \<mapsto> Map.empty], stdout = []\<rparr>"

definition example_form :: form where
  "example_form = [''text'' \<mapsto> ''CER: 5510-001'', ''from'' \<mapsto> ''tim@example.com'']"

text \<open>
  A second answer of the extraction service, whose date is a number too large for a C
  integer; everything else is as in the example.
\<close>

definition example_overflow_json :: string where
  \<open>example_overflow_json = ''{"Forwarded Date":"99999999999999999999","Ardent CER#":"5510-001"}''\<close>

definition example_overflow_record :: "(string \<times> pyval) list" where
  "example_overflow_record =
     [(''Forwarded Date'', PStr ''99999999999999999999''), (''Ardent CER#'', PStr ''5510-001'')]"

definition example_overflow_env :: env where
  "example_overflow_env =
     example_env
       \<lparr>generate_content := (\<lambda>prompt. Inr example_overflow_json),
        json_loads := (\<lambda>s. if s = example_overflow_json
                            then Inr (PDict example_overflow_record)
                            else example_json_loads s)\<rparr>"

section \<open>The classifier\<close>

lemma MARKET_KEY_distinct: "distinct (map fst MARKET_KEY_items)"
  unfolding MARKET_KEY_items_def by simp

lemma MARKET_KEY_length: "(k, v) \<in> set MARKET_KEY_items \<Longrightarrow> length k = 4"
  unfolding MARKET_KEY_items_def by auto

lemma py_slice_prefix: "py_slice xs 0 (int n) = take n xs"
  by (simp add: py_slice_def slice_index_def min_def)

lemma py_slice_4: "py_slice xs 0 4 = take 4 xs"
  using py_slice_prefix [of xs 4] by simp

text \<open>
  C1. For every string whose first four characters are a key of the market table,
  \<^verbatim>\<open>get_market_from_cer\<close> returns the name the table gives for that key, so
  \<^verbatim>\<open>5510-001\<close> yields \<^verbatim>\<open>East Texas\<close>; for every string whose first four characters
  are not a key, for every string shorter than four characters and for every value
  that is not a string it returns \<^verbatim>\<open>No Match\<close>.
\<close>

theorem get_market_from_cer_table:
  "(\<forall>(k, v) \<in> set MARKET_KEY_items. \<forall>s. take 4 s = k \<longrightarrow> get_market_from_cer (PStr s) = v)
   \<and> get_market_from_cer (PStr ''5510-001'') = ''East Texas''
   \<and> (\<forall>s. take 4 s \<notin> fst ` set MARKET_KEY_items \<longrightarrow> get_market_from_cer (PStr s) = ''No Match'')
   \<and> (\<forall>s. length s < 4 \<longrightarrow> get_market_from_cer (PStr s) = ''No Match'')
   \<and> (\<forall>x. (\<forall>s. x \<noteq> PStr s) \<longrightarrow> get_market_from_cer x = ''No Match'')"
proof (intro conjI)
  show "\<forall>(k, v) \<in> set MARKET_KEY_items. \<forall>s. take 4 s = k \<longrightarrow> get_market_from_cer (PStr s) = v"
  proof (clarify)
    fix k v s assume kv: "(take 4 s, v) \<in> set MARKET_KEY_items"
    from MARKET_KEY_length [OF kv] have len: "4 \<le> length s" by simp
    from kv MARKET_KEY_distinct have "MARKET_KEY (take 4 s) = Some v"
      by (simp add: MARKET_KEY_def)
    with len show "get_market_from_cer (PStr s) = v"
      by (simp add: py_slice_4)
  qed
next
  show "get_market_from_cer (PStr ''5510-001'') = ''East Texas''"
    by (simp add: MARKET_KEY_def MARKET_KEY_items_def py_slice_4)
next
  show "\<forall>s. take 4 s \<notin> fst ` set MARKET_KEY_items \<longrightarrow> get_market_from_cer (PStr s) = ''No Match''"
  proof (intro allI impI)
    fix s assume "take 4 s \<notin> fst ` set MARKET_KEY_items"
    then have "MARKET_KEY (take 4 s) = None"
      unfolding MARKET_KEY_def by (simp add: map_of_eq_None_iff)
    then show "get_market_from_cer (PStr s) = ''No Match''"
      by (simp add: py_slice_4)
  qed
next
  show "\<forall>s. length s < 4 \<longrightarrow> get_market_from_cer (PStr s) = ''No Match''"
    by simp
next
  show "\<forall>x. (\<forall>s. x \<noteq> PStr s) \<longrightarrow> get_market_from_cer x = ''No Match''"
  proof (intro allI impI)
    fix x assume "\<forall>s. x \<noteq> PStr s"
    then show "get_market_from_cer x = ''No Match''" by (cases x) simp_all
  qed
qed

theorem get_market_from_cer_table_witness:
  "((''5510'', ''East Texas'') \<in> set MARKET_KEY_items \<and> take 4 ''5510-001'' = ''5510''
      \<and> get_market_from_cer (PStr ''5510-001'') = ''East Texas'')
   \<and> (take 4 ''9999-001'' \<notin> fst ` set MARKET_KEY_items
      \<and> get_market_from_cer (PStr ''9999-001'') = ''No Match'')
   \<and> (length ''551'' < 4 \<and> get_market_from_cer (PStr ''551'') = ''No Match'')
   \<and> ((\<forall>s. PInt 5510001 \<noteq> PStr s) \<and> get_market_from_cer (PInt 5510001) = ''No Match'')"
proof -
  have a: "(''5510'', ''East Texas'') \<in> set MARKET_KEY_items"
    by (simp add: MARKET_KEY_items_def)
  have b: "take 4 ''9999-001'' \<notin> fst ` set MARKET_KEY_items"
    by (simp add: MARKET_KEY_items_def)
  from get_market_from_cer_table a b show ?thesis
    by (auto simp del: get_market_from_cer.simps)
qed

section \<open>Cleaning the response of the extraction service\<close>

text \<open>
  \<open>py_find\<close> and \<open>py_rfind\<close> are the first and the last occurrence, or \<open>-1\<close>.
\<close>

lemma py_find_notin: "c \<notin> set xs \<Longrightarrow> py_find xs c = -1"
  by (induction xs) (auto simp: Let_def)

lemma py_find_range: "c \<in> set xs \<Longrightarrow> 0 \<le> py_find xs c \<and> py_find xs c < int (length xs)"
  by (induction xs) (auto simp: Let_def)

lemma py_find_nth: "c \<in> set xs \<Longrightarrow> xs ! nat (py_find xs c) = c"
proof (induction xs)
  case Nil
  then show ?case by simp
next
  case (Cons x xs)
  show ?case
  proof (cases "x = c")
    case True
    then show ?thesis by simp
  next
    case False
    with Cons.prems have in_xs: "c \<in> set xs" by simp
    from py_find_range [OF in_xs] have "nat (py_find xs c + 1) = Suc (nat (py_find xs c))"
      by arith
    with False in_xs Cons.IH py_find_range [OF in_xs] show ?thesis
      by (simp add: Let_def)
  qed
qed

lemma py_find_least: "c \<in> set xs \<Longrightarrow> c \<notin> set (take (nat (py_find xs c)) xs)"
proof (induction xs)
  case Nil
  then show ?case by simp
next
  case (Cons x xs)
  show ?case
  proof (cases "x = c")
    case True
    then show ?thesis by simp
  next
    case False
    with Cons.prems have in_xs: "c \<in> set xs" by simp
    from py_find_range [OF in_xs] have "nat (py_find xs c + 1) = Suc (nat (py_find xs c))"
      by arith
    with False in_xs Cons.IH py_find_range [OF in_xs] show ?thesis
      by (simp add: Let_def)
  qed
qed

lemma py_rfind_notin: "c \<notin> set xs \<Longrightarrow> py_rfind xs c = -1"
  by (induction xs) (auto simp: Let_def)

lemma py_rfind_bounds: "-1 \<le> py_rfind xs c \<and> py_rfind xs c < int (length xs)"
  by (induction xs) (auto simp: Let_def)

lemma py_rfind_range: "c \<in> set xs \<Longrightarrow> 0 \<le> py_rfind xs c \<and> py_rfind xs c < int (length xs)"
proof (induction xs)
  case Nil
  then show ?case by simp
next
  case (Cons x xs)
  show ?case
  proof (cases "c \<in> set xs")
    case True
    with Cons.IH show ?thesis by (simp add: Let_def)
  next
    case False
    with Cons.prems have "x = c" by simp
    with False show ?thesis by (simp add: Let_def py_rfind_notin)
  qed
qed

lemma py_rfind_nth: "c \<in> set xs \<Longrightarrow> xs ! nat (py_rfind xs c) = c"
proof (induction xs)
  case Nil
  then show ?case by simp
next
  case (Cons x xs)
  show ?case
  proof (cases "c \<in> set xs")
    case True
    from py_rfind_range [OF True] have "nat (py_rfind xs c + 1) = Suc (nat (py_rfind xs c))"
      by arith
    with True Cons.IH py_rfind_range [OF True] show ?thesis
      by (simp add: Let_def)
  next
    case False
    with Cons.prems have "x = c" by simp
    with False show ?thesis by (simp add: Let_def py_rfind_notin)
  qed
qed

lemma py_rfind_greatest: "c \<in> set xs \<Longrightarrow> c \<notin> set (drop (Suc (nat (py_rfind xs c))) xs)"
proof (induction xs)
  case Nil
  then show ?case by simp
next
  case (Cons x xs)
  show ?case
  proof (cases "c \<in> set xs")
    case True
    from py_rfind_range [OF True] have "nat (py_rfind xs c + 1) = Suc (nat (py_rfind xs c))"
      by arith
    with True Cons.IH py_rfind_range [OF True] show ?thesis
      by (simp add: Let_def)
  next
    case False
    with Cons.prems have "x = c" by simp
    with False show ?thesis by (simp add: Let_def py_rfind_notin)
  qed
qed

lemma py_rfind_last: "py_rfind xs c = int (length xs) - 1 \<longleftrightarrow> xs = [] \<or> last xs = c"
proof (induction xs)
  case Nil
  then show ?case by simp
next
  case (Cons x xs)
  show ?case
  proof (cases "xs = []")
    case True
    then show ?thesis by (simp add: Let_def)
  next
    case False
    then have len: "0 < length xs" by simp
    show ?thesis
    proof (cases "c \<in> set xs")
      case True
      with Cons.IH False py_rfind_range [OF True] show ?thesis
        by (auto simp: Let_def)
    next
      case False
      note notin = this
      from \<open>xs \<noteq> []\<close> have "last xs \<in> set xs" by simp
      with notin have "last xs \<noteq> c" by auto
      with notin \<open>xs \<noteq> []\<close> len show ?thesis
        by (auto simp: Let_def py_rfind_notin)
    qed
  qed
qed

text \<open>The slice of \<open>clean_json_response\<close> when an opening brace exists.\<close>

lemma clean_json_response_object:
  assumes opn: "CHR ''{'' \<in> set text"
    and le: "py_find text CHR ''{'' \<le> py_rfind text CHR ''}''"
  shows "clean_json_response text =
           take (nat (py_rfind text CHR ''}'' - py_find text CHR ''{'') + 1)
                (drop (nat (py_find text CHR ''{'')) text)
         \<and> hd (clean_json_response text) = CHR ''{''
         \<and> last (clean_json_response text) = CHR ''}''"
proof -
  define i where "i = nat (py_find text CHR ''{'')"
  define r where "r = nat (py_rfind text CHR ''}'')"
  from py_find_range [OF opn] have fi: "py_find text CHR ''{'' = int i" and i_lt: "i < length text"
    unfolding i_def by auto
  from le fi have r0: "0 \<le> py_rfind text CHR ''}''" by simp
  then have cls: "CHR ''}'' \<in> set text"
    using py_rfind_notin [of "CHR ''}''" "text"] by fastforce
  from py_rfind_range [OF cls] have fr: "py_rfind text CHR ''}'' = int r" and r_lt: "r < length text"
    unfolding r_def by auto
  from le fi fr have ir: "i \<le> r" by simp
  have nr: "nat (int r + 1) = Suc r" by arith
  have sl: "py_slice text (int i) (int r + 1) = take (r - i + 1) (drop i text)"
    using i_lt r_lt ir by (simp add: py_slice_def slice_index_def min_def Suc_diff_le nr)
  have ne: "take (r - i + 1) (drop i text) \<noteq> []"
    using i_lt by simp
  have res: "clean_json_response text = take (r - i + 1) (drop i text)"
    using sl ne by (simp add: clean_json_response_def fi fr)
  have h: "hd (take (r - i + 1) (drop i text)) = text ! i"
    using i_lt by (simp add: hd_drop_conv_nth)
  have len: "length (take (r - i + 1) (drop i text)) = r - i + 1"
    using i_lt r_lt ir by simp
  have l: "last (take (r - i + 1) (drop i text)) = text ! r"
    using ne len i_lt r_lt ir by (simp add: last_conv_nth)
  from py_find_nth [OF opn] have ti: "text ! i = CHR ''{''" by (simp add: i_def)
  from py_rfind_nth [OF cls] have tr: "text ! r = CHR ''}''" by (simp add: r_def)
  have d: "nat (py_rfind text CHR ''}'' - py_find text CHR ''{'') = r - i"
    using ir by (simp add: fi fr)
  show ?thesis using res h l ti tr i_def d by simp
qed

lemma clean_json_response_no_close:
  assumes opn: "CHR ''{'' \<in> set text"
    and lt: "py_rfind text CHR ''}'' < py_find text CHR ''{''"
  shows "clean_json_response text = ''{}''"
proof -
  define i where "i = nat (py_find text CHR ''{'')"
  from py_find_range [OF opn] have fi: "py_find text CHR ''{'' = int i" and i_lt: "i < length text"
    unfolding i_def by auto
  from py_rfind_bounds [of "text" "CHR ''}''"] lt fi
  have "slice_index (length text) (py_rfind text CHR ''}'' + 1) \<le> i"
    by (auto simp: slice_index_def)
  moreover have "slice_index (length text) (int i) = i"
    using i_lt by (simp add: slice_index_def)
  ultimately have "py_slice text (int i) (py_rfind text CHR ''}'' + 1) = []"
    by (simp add: py_slice_def)
  then show ?thesis by (simp add: clean_json_response_def fi)
qed

lemma clean_json_response_no_open:
  assumes nopn: "CHR ''{'' \<notin> set text"
  shows "clean_json_response text =
           (if text \<noteq> [] \<and> last text = CHR ''}'' then ''}'' else ''{}'')"
proof (cases "text = []")
  case True
  then show ?thesis by (simp add: clean_json_response_def py_slice_def)
next
  case False
  then have n: "0 < length text" by simp
  have fi: "py_find text CHR ''{'' = -1" using nopn by (rule py_find_notin)
  have lo: "slice_index (length text) (-1) = length text - 1"
    using n by (simp add: slice_index_def)
  show ?thesis
  proof (cases "last text = CHR ''}''")
    case True
    with False py_rfind_last [of "text" "CHR ''}''"]
    have fr: "py_rfind text CHR ''}'' = int (length text) - 1" by simp
    have hi: "slice_index (length text) (py_rfind text CHR ''}'' + 1) = length text"
      by (simp add: fr slice_index_def)
    have "drop (length text - 1) text = [last text]"
      using False n by (metis append_butlast_last_id append_eq_conv_conj length_butlast)
    then have "py_slice text (-1) (py_rfind text CHR ''}'' + 1) = ''}''"
      using n True by (simp add: py_slice_def lo hi)
    with True False show ?thesis by (simp add: clean_json_response_def fi)
  next
    case nl: False
    with False py_rfind_last [of "text" "CHR ''}''"]
    have "py_rfind text CHR ''}'' \<noteq> int (length text) - 1" by simp
    with py_rfind_bounds [of "text" "CHR ''}''"]
    have "slice_index (length text) (py_rfind text CHR ''}'' + 1) \<le> length text - 1"
      by (auto simp: slice_index_def)
    then have "py_slice text (-1) (py_rfind text CHR ''}'' + 1) = []"
      by (simp add: py_slice_def lo)
    with nl show ?thesis by (simp add: clean_json_response_def fi)
  qed
qed

text \<open>
  C7. \<^verbatim>\<open>clean_json_response\<close> returns the substring from the first \<^verbatim>\<open>{\<close> through the
  last \<^verbatim>\<open>}\<close>, and the literal \<^verbatim>\<open>{}\<close> when there is no such substring. The three
  lemmas above give what the code returns on every input: the substring when a closing
  brace follows the first opening brace, \<^verbatim>\<open>{}\<close> when an opening brace exists and no
  closing brace follows it, and, when there is no opening brace at all, \<^verbatim>\<open>}\<close> for a
  text that ends with a closing brace. In that last case \<^verbatim>\<open>find\<close> returns \<open>-1\<close>, which
  the slice reads as the index of the last character. The text \<^verbatim>\<open>}\<close> is the smallest
  such input: the code returns \<^verbatim>\<open>}\<close> where the claim says \<^verbatim>\<open>{}\<close>.
\<close>

theorem clean_json_response_lone_close:
  "py_find ''}'' CHR ''{'' = -1 \<and> py_rfind ''}'' CHR ''}'' = 0
   \<and> clean_json_response ''}'' = ''}'' \<and> clean_json_response ''}'' \<noteq> ''{}''"
  by (simp add: clean_json_response_def py_slice_def slice_index_def)

section \<open>The date normaliser on unparseable input\<close>

text \<open>
  What the code does when the parser fails: the input comes back unchanged for a
  failure of class \<^verbatim>\<open>ValueError\<close> (\<^verbatim>\<open>ParserError\<close> is one) or \<^verbatim>\<open>TypeError\<close>, the two
  classes that the \<^verbatim>\<open>except\<close> clause names, and for the empty string, for which the
  parser is not called; an exception of any other class leaves the function.
\<close>

lemma format_date_string_unparseable:
  "parse (py_strip s) = Inl e \<Longrightarrow>
   format_date_string parse (PStr s) =
     (if s = [] \<or> is_ValueError (exc_type e) \<or> exc_type e = TypeError
      then Inr (PStr s) else Inl e)"
  by (auto simp: format_date_string_def)

lemma format_date_string_unparseable_example:
  "example_parse (py_strip ''next week'') = Inl (Exc ParserError ''Unknown string format: next week'')
   \<and> format_date_string example_parse (PStr ''next week'') = Inr (PStr ''next week'')"
proof -
  have p: "example_parse (py_strip ''next week'')
             = Inl (Exc ParserError ''Unknown string format: next week'')"
    by (simp add: example_parse_def py_strip_def is_space_def)
  from format_date_string_unparseable [of example_parse "''next week''", OF p] p
  show ?thesis by simp
qed

text \<open>
  C2. For every input string on which lenient date parsing fails,
  \<^verbatim>\<open>format_date_string\<close> returns the input unchanged and raises nothing. The code
  aims at this, with a \<^verbatim>\<open>try\<close> around the call of the parser whose handler returns
  the input, and misses one class of failure: on a number too large for a C integer
  the parser raises \<^verbatim>\<open>OverflowError\<close>, which is neither a \<^verbatim>\<open>ValueError\<close> nor a
  \<^verbatim>\<open>TypeError\<close>, and \<^verbatim>\<open>format_date_string\<close> raises it too, where the claim says that
  the input is returned.
\<close>

theorem format_date_string_overflow:
  "example_parse (py_strip ''99999999999999999999'')
     = Inl (Exc OverflowError ''Python int too large to convert to C int'')
   \<and> format_date_string example_parse (PStr ''99999999999999999999'')
     = Inl (Exc OverflowError ''Python int too large to convert to C int'')
   \<and> format_date_string example_parse (PStr ''99999999999999999999'')
     \<noteq> Inr (PStr ''99999999999999999999'')"
  by (simp add: format_date_string_def example_parse_def py_strip_def is_space_def)

subsection \<open>The normaliser on parseable input\<close>

text \<open>
  The normaliser on a string that the parser reads: the result is the rendering of the
  date, and applying the normaliser to the rendering returns it unchanged exactly when
  the parser reads the rendering back as a date with the same rendering, or rejects it
  with an exception of a class that is caught.
\<close>

lemma format_date_string_parsed:
  "s \<noteq> [] \<Longrightarrow> parse (py_strip s) = Inr dt \<Longrightarrow>
   format_date_string parse (PStr s)
     = Inr (PStr (str_int (month dt) @ ''/'' @ str_int (day dt) @ ''/'' @ str_int (year dt)))"
  by (simp add: format_date_string_def)

lemma format_date_string_fixed_iff:
  "t \<noteq> [] \<Longrightarrow>
   format_date_string parse (PStr t) = Inr (PStr t) \<longleftrightarrow>
     (case parse (py_strip t) of
        Inr dt \<Rightarrow> str_int (month dt) @ ''/'' @ str_int (day dt) @ ''/'' @ str_int (year dt) = t
      | Inl e \<Rightarrow> is_ValueError (exc_type e) \<or> exc_type e = TypeError)"
  by (simp add: format_date_string_def split: sum.splits)


section \<open>The webhook endpoint\<close>

subsection \<open>Auxiliary facts\<close>

lemma str_nat_nonempty: "str_nat n \<noteq> []"
  by (subst str_nat.simps) simp

lemma str_int_nonempty: "str_int i \<noteq> []"
  by (simp add: str_int_def str_nat_nonempty)

text \<open>Only the empty string is rendered by \<^verbatim>\<open>str\<close> as the empty string.\<close>

lemma py_str_empty_iff: "py_str v = [] \<longleftrightarrow> v = PStr []"
  by (cases v) (simp_all add: str_int_nonempty repr_str_def Let_def)

lemma dict_get_empty_iff:
  "py_str (dict_get d k (PStr [])) = [] \<longleftrightarrow> map_of d k = None \<or> map_of d k = Some (PStr [])"
  by (simp add: py_str_empty_iff dict_get_def split: option.splits)

lemma GeminiProcessor_init_ok:
  "GeminiProcessor_init_try env = Inr u \<Longrightarrow> GeminiProcessor_init env w = (Inr u, w)"
  by (simp add: GeminiProcessor_init_def)

lemma GeminiProcessor_init_raises:
  "GeminiProcessor_init_try env = Inl e \<Longrightarrow>
   GeminiProcessor_init env w = (Inl e, print_line (Api_configuration_error e) w)"
  by (simp add: GeminiProcessor_init_def)

text \<open>The example, step by step.\<close>

lemma example_clean: "clean_json_response example_reply = example_json"
  by (simp add: clean_json_response_def example_reply_def example_json_def py_slice_def
        slice_index_def Let_def)

lemma example_init: "GeminiProcessor_init_try example_env = Inr ()"
  by (simp add: GeminiProcessor_init_try_def example_env_def)

lemma example_extract:
  "extract_data_from_email example_env body = Inr (PDict example_record)"
  by (simp add: extract_data_from_email_def example_env_def example_clean example_json_loads_def)

lemma example_text: "example_form ''text'' = Some ''CER: 5510-001''"
  by (simp add: example_form_def)

subsection \<open>A request without a body\<close>

text \<open>
  C8. For every request whose form field \<^verbatim>\<open>text\<close> is missing or empty,
  \<^verbatim>\<open>handle_email\<close> returns HTTP 400 without invoking extraction, classification or the
  spreadsheet writer: the response and the world after the request are the same for
  every environment, the spreadsheets are as before, and the only line printed is the
  first one of the handler.
\<close>

theorem handle_email_no_body:
  "request_form ''text'' = None \<or> request_form ''text'' = Some [] \<Longrightarrow>
   handle_email env w request_form
     = ((''Failed: No email body content.'', 400), print_line Webhook_received w)
   \<and> sheets (snd (handle_email env w request_form)) = sheets w
   \<and> stdout (snd (handle_email env w request_form)) = stdout w @ [Webhook_received]"
  by (auto simp: handle_email_def print_line_def)

theorem handle_email_no_body_witness:
  "(Map.empty :: form) ''text'' = None
   \<and> handle_email example_env example_world Map.empty
       = ((''Failed: No email body content.'', 400), print_line Webhook_received example_world)
   \<and> sheets (snd (handle_email example_env example_world Map.empty)) = sheets example_world
   \<and> stdout (snd (handle_email example_env example_world Map.empty)) = [Webhook_received]"
  using handle_email_no_body [of Map.empty example_env example_world]
  by (simp add: example_world_def print_line_def)

subsection \<open>An empty request number\<close>

text \<open>
  C5. For every request with a non-empty body for which extraction succeeds and yields
  an empty request number, \<^verbatim>\<open>handle_email\<close> returns HTTP 400; the endpoint takes
  this branch for every empty value of the field and for no other value. The field is
  empty when the key \<^verbatim>\<open>Ardent CER#\<close> is absent or its value is the empty string: these
  are the values that \<^verbatim>\<open>str\<close> renders as the empty string.
\<close>

theorem handle_email_cer_missing:
  assumes "request_form ''text'' = Some body" and "body \<noteq> []"
    and "GeminiProcessor_init_try env = Inr ()"
    and "extract_data_from_email env body = Inr (PDict d)"
  shows "(py_str (dict_get d ''Ardent CER#'' (PStr '''')) = [] \<longrightarrow>
            handle_email env w request_form
              = ((''Failed: Could not extract CER#.'', 400),
                 print_line Cer_missing (print_line Webhook_received w)))
       \<and> (snd (fst (handle_email env w request_form)) = 400
            \<longleftrightarrow> py_str (dict_get d ''Ardent CER#'' (PStr '''')) = [])
       \<and> (py_str (dict_get d ''Ardent CER#'' (PStr '''')) = []
            \<longleftrightarrow> map_of d ''Ardent CER#'' = None \<or> map_of d ''Ardent CER#'' = Some (PStr ''''))"
  using assms
  by (auto simp: handle_email_def handle_email_try_def GeminiProcessor_init_ok Let_def
        dict_get_empty_iff split: sum.splits)

theorem handle_email_cer_missing_witness:
  "example_form ''text'' = Some ''CER: 5510-001'' \<and> ''CER: 5510-001'' \<noteq> []
   \<and> GeminiProcessor_init_try (example_env\<lparr>generate_content := \<lambda>prompt. Inr ''no data''\<rparr>) = Inr ()
   \<and> extract_data_from_email (example_env\<lparr>generate_content := \<lambda>prompt. Inr ''no data''\<rparr>)
        ''CER: 5510-001'' = Inr (PDict [])
   \<and> py_str (dict_get [] ''Ardent CER#'' (PStr '''')) = []
   \<and> handle_email (example_env\<lparr>generate_content := \<lambda>prompt. Inr ''no data''\<rparr>)
        example_world example_form
       = ((''Failed: Could not extract CER#.'', 400),
          print_line Cer_missing (print_line Webhook_received example_world))
   \<and> py_str (dict_get example_record ''Ardent CER#'' (PStr '''')) \<noteq> []
   \<and> snd (fst (handle_email example_env example_world example_form)) \<noteq> 400"
proof -
  let ?env = "example_env\<lparr>generate_content := \<lambda>prompt. Inr ''no data''\<rparr>"
  have i: "GeminiProcessor_init_try ?env = Inr ()"
    by (simp add: GeminiProcessor_init_try_def example_env_def)
  have x: "extract_data_from_email ?env ''CER: 5510-001'' = Inr (PDict [])"
    by (simp add: extract_data_from_email_def example_env_def example_json_loads_def
          clean_json_response_def py_slice_def slice_index_def example_json_def)
  have c: "py_str (dict_get example_record ''Ardent CER#'' (PStr '''')) \<noteq> []"
    by (simp add: dict_get_def example_record_def)
  from handle_email_cer_missing [where request_form = example_form and body = "''CER: 5510-001''"
           and env = ?env and d = "[]" and w = example_world]
       handle_email_cer_missing [where request_form = example_form and body = "''CER: 5510-001''"
           and env = example_env and d = example_record and w = example_world]
       example_text i x c example_init example_extract
  show ?thesis by (simp add: dict_get_def)
qed


subsection \<open>Exceptions during processing\<close>

lemma extract_data_from_email_api_error:
  "generate_content env (prompt_text @ body) = Inl e \<Longrightarrow>
   extract_data_from_email env body
     = Inl (Exc ValueError (''Gemini API call or JSON parsing failed: '' @ exc_msg e))"
  by (simp add: extract_data_from_email_def extraction_failed_def)

lemma extract_data_from_email_json_error:
  "generate_content env (prompt_text @ body) = Inr response_text \<Longrightarrow>
   json_loads env (clean_json_response response_text) = Inl e \<Longrightarrow>
   extract_data_from_email env body
     = Inl (Exc ValueError (''Gemini API call or JSON parsing failed: '' @ exc_msg e))"
  by (simp add: extract_data_from_email_def extraction_failed_def)

text \<open>The exceptions that end the body of the handler's \<^verbatim>\<open>try\<close>, and where each comes from.\<close>

lemma handle_email_try_raises_iff:
  "handle_email_try env w body email_from = (Inl e, w1) \<longleftrightarrow>
     (GeminiProcessor_init_try env = Inl e \<and> w1 = print_line (Api_configuration_error e) w)
   \<or> (GeminiProcessor_init_try env = Inr () \<and> w1 = w \<and>
       (extract_data_from_email env body = Inl e
        \<or> (\<exists>v. extract_data_from_email env body = Inr v \<and> (\<forall>d. v \<noteq> PDict d)
                 \<and> e = attribute_error v ''get'')
        \<or> (\<exists>d. extract_data_from_email env body = Inr (PDict d)
                 \<and> py_str (dict_get d ''Ardent CER#'' (PStr '''')) \<noteq> []
                 \<and> format_date_string (parse_fuzzy env) (dict_get d ''Forwarded Date'' PNone) = Inl e)))"
  by (auto simp: handle_email_try_def GeminiProcessor_init_def Let_def
        split: sum.splits pyval.splits)

text \<open>
  C9. For a request with a non-empty body, every exception raised during processing,
  other than in the two cases answered with 400, is caught by \<^verbatim>\<open>handle_email\<close>, which
  returns HTTP 500 with the message of the exception in the body of the response; this
  includes the configuration errors of the extraction client and the failures to parse
  its JSON. The exceptions in question are those that end the body of the handler's
  \<^verbatim>\<open>try\<close> (\<open>handle_email_try_raises_iff\<close> lists them); the status is 500 in no
  other case. An exception of the extraction call reaches the handler inside the
  \<^verbatim>\<open>ValueError\<close> that \<^verbatim>\<open>extract_data_from_email\<close> raises, whose message ends with
  the message of the original.
\<close>

theorem handle_email_internal_error:
  assumes "request_form ''text'' = Some body" and "body \<noteq> []"
  shows "(\<forall>e w1. handle_email_try env (print_line Webhook_received w) body (request_form ''from'')
                   = (Inl e, w1) \<longrightarrow>
            handle_email env w request_form
              = ((''Internal server error: '' @ exc_msg e, 500), print_line (Critical_error e) w1))
       \<and> (snd (fst (handle_email env w request_form)) = 500 \<longrightarrow>
            (\<exists>e w1. handle_email_try env (print_line Webhook_received w) body (request_form ''from'')
                      = (Inl e, w1)))
       \<and> (\<forall>e. GeminiProcessor_init_try env = Inl e \<longrightarrow>
            fst (handle_email env w request_form) = (''Internal server error: '' @ exc_msg e, 500))
       \<and> (GEMINI_API_KEY env = None \<longrightarrow>
            fst (handle_email env w request_form)
              = (''Internal server error: GEMINI_API_KEY not found in environment variables.'', 500))
       \<and> (\<forall>e. GeminiProcessor_init_try env = Inr () \<and>
                generate_content env (prompt_text @ body) = Inl e \<longrightarrow>
            fst (handle_email env w request_form)
              = (''Internal server error: Gemini API call or JSON parsing failed: '' @ exc_msg e, 500))
       \<and> (\<forall>response_text e. GeminiProcessor_init_try env = Inr () \<and>
                generate_content env (prompt_text @ body) = Inr response_text \<and>
                json_loads env (clean_json_response response_text) = Inl e \<longrightarrow>
            fst (handle_email env w request_form)
              = (''Internal server error: Gemini API call or JSON parsing failed: '' @ exc_msg e, 500))"
proof (intro conjI allI impI)
  fix e w1
  assume "handle_email_try env (print_line Webhook_received w) body (request_form ''from'') = (Inl e, w1)"
  with assms show "handle_email env w request_form
      = ((''Internal server error: '' @ exc_msg e, 500), print_line (Critical_error e) w1)"
    by (simp add: handle_email_def)
next
  assume "snd (fst (handle_email env w request_form)) = 500"
  with assms show "\<exists>e w1. handle_email_try env (print_line Webhook_received w) body (request_form ''from'')
                      = (Inl e, w1)"
    by (auto simp: handle_email_def handle_email_try_def Let_def
          split: sum.splits prod.splits pyval.splits if_splits)
next
  fix e assume "GeminiProcessor_init_try env = Inl e"
  with assms show "fst (handle_email env w request_form) = (''Internal server error: '' @ exc_msg e, 500)"
    by (simp add: handle_email_def handle_email_try_def GeminiProcessor_init_raises)
next
  assume "GEMINI_API_KEY env = None"
  then have "GeminiProcessor_init_try env
               = Inl (Exc ValueError ''GEMINI_API_KEY not found in environment variables.'')"
    by (simp add: GeminiProcessor_init_try_def)
  with assms show "fst (handle_email env w request_form)
      = (''Internal server error: GEMINI_API_KEY not found in environment variables.'', 500)"
    by (simp add: handle_email_def handle_email_try_def GeminiProcessor_init_raises)
next
  fix e assume "GeminiProcessor_init_try env = Inr () \<and> generate_content env (prompt_text @ body) = Inl e"
  with assms extract_data_from_email_api_error [of env body e]
  show "fst (handle_email env w request_form)
      = (''Internal server error: Gemini API call or JSON parsing failed: '' @ exc_msg e, 500)"
    by (simp add: handle_email_def handle_email_try_def GeminiProcessor_init_ok)
next
  fix response_text e
  assume "GeminiProcessor_init_try env = Inr () \<and>
          generate_content env (prompt_text @ body) = Inr response_text \<and>
          json_loads env (clean_json_response response_text) = Inl e"
  with assms extract_data_from_email_json_error [of env body response_text e]
  show "fst (handle_email env w request_form)
      = (''Internal server error: Gemini API call or JSON parsing failed: '' @ exc_msg e, 500)"
    by (simp add: handle_email_def handle_email_try_def GeminiProcessor_init_ok)
qed

theorem handle_email_internal_error_witness:
  "example_form ''text'' = Some ''CER: 5510-001'' \<and> ''CER: 5510-001'' \<noteq> []
   \<and> GEMINI_API_KEY (example_env\<lparr>GEMINI_API_KEY := None\<rparr>) = None
   \<and> fst (handle_email (example_env\<lparr>GEMINI_API_KEY := None\<rparr>) example_world example_form)
       = (''Internal server error: GEMINI_API_KEY not found in environment variables.'', 500)
   \<and> GeminiProcessor_init_try (example_env\<lparr>generate_content := \<lambda>prompt. Inr ''Sorry}''\<rparr>) = Inr ()
   \<and> json_loads (example_env\<lparr>generate_content := \<lambda>prompt. Inr ''Sorry}''\<rparr>)
        (clean_json_response ''Sorry}'')
       = Inl (Exc JSONDecodeError ''Expecting value: line 1 column 1 (char 0)'')
   \<and> fst (handle_email (example_env\<lparr>generate_content := \<lambda>prompt. Inr ''Sorry}''\<rparr>)
            example_world example_form)
       = (''Internal server error: Gemini API call or JSON parsing failed: Expecting value: line 1 column 1 (char 0)'', 500)"
proof -
  let ?env1 = "example_env\<lparr>GEMINI_API_KEY := None\<rparr>"
  let ?env2 = "example_env\<lparr>generate_content := \<lambda>prompt. Inr ''Sorry}''\<rparr>"
  have k: "GEMINI_API_KEY ?env1 = None" by simp
  have i: "GeminiProcessor_init_try ?env2 = Inr ()"
    by (simp add: GeminiProcessor_init_try_def example_env_def)
  have g: "generate_content ?env2 (prompt_text @ ''CER: 5510-001'') = Inr ''Sorry}''" by simp
  have j: "json_loads ?env2 (clean_json_response ''Sorry}'')
             = Inl (Exc JSONDecodeError ''Expecting value: line 1 column 1 (char 0)'')"
    by (simp add: example_env_def example_json_loads_def clean_json_response_def py_slice_def
          slice_index_def example_json_def)
  from handle_email_internal_error [where request_form = example_form and body = "''CER: 5510-001''"
           and env = ?env1 and w = example_world]
       handle_email_internal_error [where request_form = example_form and body = "''CER: 5510-001''"
           and env = ?env2 and w = example_world]
       example_text k i g j
  show ?thesis by simp
qed


subsection \<open>No spreadsheet access on a 400 response\<close>

text \<open>
  C10. Whenever \<^verbatim>\<open>handle_email\<close> returns HTTP 400, \<^verbatim>\<open>update_google_sheet\<close> is not
  invoked: the spreadsheets are unchanged, and the lines printed are the first line of
  the handler, followed in the case of the empty request number by its error line, so
  that the first line of \<^verbatim>\<open>update_google_sheet\<close> is not among them.
\<close>

theorem handle_email_400_sheet_untouched:
  "snd (fst (handle_email env w request_form)) = 400 \<Longrightarrow>
     sheets (snd (handle_email env w request_form)) = sheets w
     \<and> (stdout (snd (handle_email env w request_form)) = stdout w @ [Webhook_received]
        \<or> stdout (snd (handle_email env w request_form)) = stdout w @ [Webhook_received, Cer_missing])
     \<and> Connecting \<notin> set (drop (length (stdout w)) (stdout (snd (handle_email env w request_form))))"
  by (auto simp: handle_email_def handle_email_try_def GeminiProcessor_init_def print_line_def Let_def
        split: sum.splits prod.splits pyval.splits if_splits option.splits)

lemma example_no_data:
  "handle_email (example_env\<lparr>generate_content := \<lambda>prompt. Inr ''no data''\<rparr>)
        example_world example_form
     = ((''Failed: Could not extract CER#.'', 400),
        print_line Cer_missing (print_line Webhook_received example_world))"
  by (simp add: handle_email_def handle_email_try_def GeminiProcessor_init_def
        GeminiProcessor_init_try_def example_form_def example_env_def extract_data_from_email_def
        example_json_loads_def clean_json_response_def py_slice_def slice_index_def
        example_json_def dict_get_def)

theorem handle_email_400_sheet_untouched_witness:
  "snd (fst (handle_email (example_env\<lparr>generate_content := \<lambda>prompt. Inr ''no data''\<rparr>)
               example_world example_form)) = 400
   \<and> sheets (snd (handle_email (example_env\<lparr>generate_content := \<lambda>prompt. Inr ''no data''\<rparr>)
               example_world example_form)) = sheets example_world
   \<and> stdout (snd (handle_email (example_env\<lparr>generate_content := \<lambda>prompt. Inr ''no data''\<rparr>)
               example_world example_form)) = [Webhook_received, Cer_missing]"
  using handle_email_400_sheet_untouched
          [of "example_env\<lparr>generate_content := \<lambda>prompt. Inr ''no data''\<rparr>" example_world example_form]
  unfolding example_no_data by (simp add: print_line_def example_world_def)


subsection \<open>When the writer is called\<close>

text \<open>The writer prints its first line whatever happens next.\<close>

lemma spreadsheet_add_worksheet_stdout:
  "spreadsheet_add_worksheet env w sheet_name title = Inr w' \<Longrightarrow> stdout w' = stdout w"
  by (auto simp: spreadsheet_add_worksheet_def split: option.splits)

lemma worksheet_append_row_stdout:
  "worksheet_append_row env w sheet_name title row = Inr w' \<Longrightarrow> stdout w' = stdout w"
  by (auto simp: worksheet_append_row_def split: option.splits)

lemma get_or_create_worksheet_stdout:
  "\<exists>ls. stdout (snd (get_or_create_worksheet env w sheet_name market)) = stdout w @ ls"
proof (cases "spreadsheet_worksheet env w sheet_name market")
  case (Inr u)
  then show ?thesis by (simp add: get_or_create_worksheet_def print_line_def)
next
  case (Inl e)
  show ?thesis
  proof (cases "exc_type e = WorksheetNotFound")
    case False
    with Inl show ?thesis by (simp add: get_or_create_worksheet_def)
  next
    case True
    let ?w1 = "print_line (Creating_worksheet market) w"
    show ?thesis
    proof (cases "spreadsheet_add_worksheet env ?w1 sheet_name market")
      case (Inl e1)
      with \<open>spreadsheet_worksheet env w sheet_name market = Inl e\<close> True show ?thesis
        by (simp add: get_or_create_worksheet_def print_line_def)
    next
      case (Inr w2)
      note add = this
      from spreadsheet_add_worksheet_stdout [OF add]
      have w2: "stdout w2 = stdout w @ [Creating_worksheet market]" by (simp add: print_line_def)
      show ?thesis
      proof (cases "worksheet_append_row env w2 sheet_name market header")
        case (Inl e2)
        with \<open>spreadsheet_worksheet env w sheet_name market = Inl e\<close> True add w2 show ?thesis
          by (simp add: get_or_create_worksheet_def)
      next
        case (Inr w3)
        from worksheet_append_row_stdout [OF Inr] w2
        have "stdout w3 = stdout w @ [Creating_worksheet market]" by simp
        with \<open>spreadsheet_worksheet env w sheet_name market = Inl e\<close> True add Inr show ?thesis
          by (simp add: get_or_create_worksheet_def print_line_def)
      qed
    qed
  qed
qed

lemma update_google_sheet_try_stdout:
  "\<exists>ls. stdout (snd (update_google_sheet_try env w data)) = stdout w @ Connecting # ls"
proof (cases "get_gspread_client env")
  case (Inl e)
  then show ?thesis by (simp add: update_google_sheet_try_def print_line_def)
next
  case client: (Inr c)
  define sheet_name where
    "sheet_name = (case GOOGLE_SHEET_NAME env of None \<Rightarrow> ''CER_Report'' | Some n \<Rightarrow> n)"
  define w3 where
    "w3 = print_line (Opening_spreadsheet sheet_name)
            (print_line Connection_successful (print_line Connecting w))"
  show ?thesis
  proof (cases "client_open env w3 sheet_name")
    case (Inl e)
    with client show ?thesis
      by (simp add: update_google_sheet_try_def print_line_def Let_def sheet_name_def w3_def)
  next
    case opened: (Inr s)
    define market where "market = dict_get data ''Market'' (PStr ''Unknown'')"
    define w5 where "w5 = print_line (Market_determined market) (print_line Spreadsheet_opened w3)"
    have w5: "stdout w5 = stdout w @ [Connecting, Connection_successful,
                Opening_spreadsheet sheet_name, Spreadsheet_opened, Market_determined market]"
      by (simp add: w5_def w3_def print_line_def)
    obtain r w6 where g: "get_or_create_worksheet env w5 sheet_name market = (r, w6)"
      by (cases "get_or_create_worksheet env w5 sheet_name market")
    obtain ls where "stdout (snd (get_or_create_worksheet env w5 sheet_name market)) = stdout w5 @ ls"
      using get_or_create_worksheet_stdout by blast
    with g w5 have w6: "stdout w6 = stdout w @ Connecting # ([Connection_successful,
                Opening_spreadsheet sheet_name, Spreadsheet_opened, Market_determined market] @ ls)"
      by simp
    have unfold: "update_google_sheet_try env w data =
      (case r of Inl e \<Rightarrow> (Inl e, w6)
       | Inr worksheet \<Rightarrow>
           (let row = row_to_add data market; w7 = print_line (Preparing_row row) w6 in
              case worksheet_append_row env w7 sheet_name market row of
                Inl e \<Rightarrow> (Inl e, w7)
              | Inr w8 \<Rightarrow> (Inr (), print_line (Wrote_data market) w8)))"
      using client opened g unfolding sheet_name_def w3_def market_def w5_def
      by (simp add: update_google_sheet_try_def Let_def)
    show ?thesis
    proof (cases r)
      case (Inl e)
      with unfold w6 show ?thesis by simp
    next
      case (Inr u)
      let ?w7 = "print_line (Preparing_row (row_to_add data market)) w6"
      show ?thesis
      proof (cases "worksheet_append_row env ?w7 sheet_name market (row_to_add data market)")
        case (Inl e)
        with unfold Inr w6 show ?thesis by (simp add: Let_def print_line_def)
      next
        case w8: (Inr w8)
        from worksheet_append_row_stdout [OF w8] w6
        have "stdout w8 = stdout w @ Connecting # ([Connection_successful,
                Opening_spreadsheet sheet_name, Spreadsheet_opened, Market_determined market] @ ls
                @ [Preparing_row (row_to_add data market)])"
          by (simp add: print_line_def)
        with unfold Inr w8 show ?thesis by (simp add: Let_def print_line_def)
      qed
    qed
  qed
qed

lemma update_google_sheet_stdout:
  "\<exists>ls. stdout (update_google_sheet env w data) = stdout w @ Connecting # ls"
proof -
  obtain ls where ls: "stdout (snd (update_google_sheet_try env w data)) = stdout w @ Connecting # ls"
    using update_google_sheet_try_stdout by blast
  show ?thesis
  proof (cases "update_google_sheet_try env w data")
    case (Pair r w')
    with ls show ?thesis
      by (cases r) (auto simp: update_google_sheet_def print_line_def)
  qed
qed

text \<open>
  The response has status 200 exactly when the writer was called, that is, when its
  first line is among the lines printed during the request.
\<close>

lemma handle_email_200_iff_writer_called:
  "snd (fst (handle_email env w request_form)) = 200 \<longleftrightarrow>
     Connecting \<in> set (drop (length (stdout w)) (stdout (snd (handle_email env w request_form))))"
proof -
  have called: "Connecting \<in> set (drop (length (stdout w))
                   (stdout (update_google_sheet env (print_line Webhook_received w) data)))" for data
  proof -
    obtain ls where "stdout (update_google_sheet env (print_line Webhook_received w) data)
                       = stdout (print_line Webhook_received w) @ Connecting # ls"
      using update_google_sheet_stdout by blast
    then show ?thesis by (simp add: print_line_def)
  qed
  show ?thesis
    using called
    by (auto simp: handle_email_def handle_email_try_def GeminiProcessor_init_def print_line_def
          Let_def split: sum.splits prod.splits pyval.splits if_splits option.splits)
qed


subsection \<open>Failures of the spreadsheet writer\<close>

text \<open>
  The writer is called when the body is not empty, the extraction client is set up and
  returns a dict, the request number is not empty and the date normaliser returns. The
  response is then the same for every outcome of the body of the writer's \<^verbatim>\<open>try\<close>.
\<close>

lemma handle_email_reaches_writer:
  assumes "request_form ''text'' = Some body" and "body \<noteq> []"
    and "GeminiProcessor_init_try env = Inr ()"
    and "extract_data_from_email env body = Inr (PDict d)"
    and "py_str (dict_get d ''Ardent CER#'' (PStr '''')) = cer_number" and "cer_number \<noteq> []"
    and "format_date_string (parse_fuzzy env) (dict_get d ''Forwarded Date'' PNone) = Inr forwarded_date"
    and "data = augment_record d forwarded_date cer_number (request_form ''from'')"
    and "w0 = print_line Webhook_received w"
  shows "fst (handle_email env w request_form) = (success_text, 200)
       \<and> snd (handle_email env w request_form) = update_google_sheet env w0 data
       \<and> (\<forall>e w'. update_google_sheet_try env w0 data = (Inl e, w') \<longrightarrow>
             snd (handle_email env w request_form) = print_line (Sheet_update_failed e) w')
       \<and> (\<forall>w'. update_google_sheet_try env w0 data = (Inr (), w') \<longrightarrow>
             snd (handle_email env w request_form) = w')"
  using assms
  by (simp add: handle_email_def handle_email_try_def GeminiProcessor_init_ok Let_def
        update_google_sheet_def)

text \<open>The example with a spreadsheet service that refuses every call.\<close>

lemma example_cer: "py_str (dict_get example_record ''Ardent CER#'' (PStr '''')) = ''5510-001''"
  by (simp add: dict_get_def example_record_def)

lemma example_date:
  "format_date_string (parse_fuzzy example_env) (dict_get example_record ''Forwarded Date'' PNone)
     = Inr (PStr ''1/2/2024'')"
  by (simp add: format_date_string_def dict_get_def example_record_def example_env_def
        example_parse_def py_strip_def is_space_def str_int_def str_nat.simps)

lemma example_market: "get_market_from_cer (PStr ''5510-001'') = ''East Texas''"
  by (simp add: MARKET_KEY_def MARKET_KEY_items_def py_slice_4)

lemma example_data:
  "augment_record example_record (PStr ''1/2/2024'') ''5510-001'' (example_form ''from'')
     = [(''Forwarded Date'', PStr ''1/2/2024''), (''Ardent CER#'', PStr ''5510-001''),
        (''Notes'', PStr ''OR Tables''), (''Capital $'', PStr ''315000''),
        (''ETA/Install'', PStr ''Q3''), (''Mfg'', PStr ''Stryker''),
        (''Model'', PStr ''T7''), (''URL'', PStr ''http://erp/1''),
        (''Market'', PStr ''East Texas''), (''Source Email'', PStr ''tim@example.com'')]"
  by (simp add: augment_record_def example_record_def example_market example_form_def
        form_value_def del: get_market_from_cer.simps)

lemma example_quota:
  "update_google_sheet_try (example_env\<lparr>api_fault := \<lambda>call. Some (Exc APIError ''Quota exceeded'')\<rparr>)
      (print_line Webhook_received example_world)
      (augment_record example_record (PStr ''1/2/2024'') ''5510-001'' (example_form ''from''))
     = (Inl (Exc APIError ''Quota exceeded''),
        \<lparr>sheets = [''CER_Report'' \<mapsto> Map.empty],
         stdout = [Webhook_received, Connecting, Connection_successful,
                   Opening_spreadsheet ''CER_Report'']\<rparr>)"
  by (simp add: update_google_sheet_try_def get_gspread_client_def example_env_def
        example_json_loads_def example_json_def client_open_def print_line_def example_world_def
        Let_def)

lemma example_quota_run:
  "fst (handle_email (example_env\<lparr>api_fault := \<lambda>call. Some (Exc APIError ''Quota exceeded'')\<rparr>)
          example_world example_form) = (success_text, 200)
   \<and> snd (handle_email (example_env\<lparr>api_fault := \<lambda>call. Some (Exc APIError ''Quota exceeded'')\<rparr>)
          example_world example_form)
       = \<lparr>sheets = [''CER_Report'' \<mapsto> Map.empty],
          stdout = [Webhook_received, Connecting, Connection_successful,
                    Opening_spreadsheet ''CER_Report'',
                    Sheet_update_failed (Exc APIError ''Quota exceeded'')]\<rparr>"
proof -
  let ?env = "example_env\<lparr>api_fault := \<lambda>call. Some (Exc APIError ''Quota exceeded'')\<rparr>"
  have i: "GeminiProcessor_init_try ?env = Inr ()"
    by (simp add: GeminiProcessor_init_try_def example_env_def)
  have x: "extract_data_from_email ?env ''CER: 5510-001'' = Inr (PDict example_record)"
    by (simp add: extract_data_from_email_def example_env_def example_clean example_json_loads_def)
  have f: "format_date_string (parse_fuzzy ?env) (dict_get example_record ''Forwarded Date'' PNone)
             = Inr (PStr ''1/2/2024'')"
    using example_date by (simp add: example_env_def)
  from handle_email_reaches_writer
         [where request_form = example_form and body = "''CER: 5510-001''" and env = ?env
            and d = example_record and cer_number = "''5510-001''"
            and forwarded_date = "PStr ''1/2/2024''" and w = example_world,
          OF example_text _ i x example_cer _ f refl refl]
       example_quota
  show ?thesis by (simp add: print_line_def update_google_sheet_def)
qed

text \<open>A response with status 200 comes from the last statement of the handler's \<^verbatim>\<open>try\<close>.\<close>

lemma handle_email_200_cases:
  assumes "snd (fst (handle_email env w request_form)) = 200"
  shows "\<exists>body d forwarded_date.
           request_form ''text'' = Some body \<and> body \<noteq> []
           \<and> GeminiProcessor_init_try env = Inr ()
           \<and> extract_data_from_email env body = Inr (PDict d)
           \<and> py_str (dict_get d ''Ardent CER#'' (PStr '''')) \<noteq> []
           \<and> format_date_string (parse_fuzzy env) (dict_get d ''Forwarded Date'' PNone)
               = Inr forwarded_date"
  using assms
  by (auto simp: handle_email_def handle_email_try_def GeminiProcessor_init_def Let_def
        split: sum.splits prod.splits pyval.splits if_splits option.splits)

text \<open>
  Conversely, a request for which the writer is called, that is, for which the first
  line of the writer is among the lines printed, has a non-empty body, a successful
  extraction and a non-empty request number, and its response has status 200.
\<close>

lemma handle_email_writer_called:
  assumes "Connecting \<in> set (drop (length (stdout w))
                               (stdout (snd (handle_email env w request_form))))"
  shows "fst (handle_email env w request_form) = (success_text, 200)
       \<and> (\<exists>body d forwarded_date.
             request_form ''text'' = Some body \<and> body \<noteq> []
             \<and> extract_data_from_email env body = Inr (PDict d)
             \<and> py_str (dict_get d ''Ardent CER#'' (PStr '''')) \<noteq> []
             \<and> snd (handle_email env w request_form)
                 = update_google_sheet env (print_line Webhook_received w)
                     (augment_record d forwarded_date
                        (py_str (dict_get d ''Ardent CER#'' (PStr ''''))) (request_form ''from'')))
       \<and> (\<forall>w0 data e w'. update_google_sheet_try env w0 data = (Inl e, w') \<longrightarrow>
             update_google_sheet env w0 data = print_line (Sheet_update_failed e) w')
       \<and> (\<forall>w0 data w'. update_google_sheet_try env w0 data = (Inr (), w') \<longrightarrow>
             update_google_sheet env w0 data = w')"
proof -
  from assms have "snd (fst (handle_email env w request_form)) = 200"
    by (simp add: handle_email_200_iff_writer_called)
  then obtain body d forwarded_date where
    h: "request_form ''text'' = Some body" "body \<noteq> []"
       "GeminiProcessor_init_try env = Inr ()"
       "extract_data_from_email env body = Inr (PDict d)"
       "py_str (dict_get d ''Ardent CER#'' (PStr '''')) \<noteq> []"
       "format_date_string (parse_fuzzy env) (dict_get d ''Forwarded Date'' PNone)
          = Inr forwarded_date"
    using handle_email_200_cases by blast
  from handle_email_reaches_writer
         [where request_form = request_form and body = body and env = env and d = d
            and cer_number = "py_str (dict_get d ''Ardent CER#'' (PStr ''''))"
            and forwarded_date = forwarded_date and w = w
            and data = "augment_record d forwarded_date
                          (py_str (dict_get d ''Ardent CER#'' (PStr ''''))) (request_form ''from'')"
            and ?w0.0 = "print_line Webhook_received w"] h
  have r: "fst (handle_email env w request_form) = (success_text, 200)"
    and s: "snd (handle_email env w request_form)
              = update_google_sheet env (print_line Webhook_received w)
                  (augment_record d forwarded_date
                     (py_str (dict_get d ''Ardent CER#'' (PStr ''''))) (request_form ''from''))"
    by simp_all
  have c: "\<forall>w0 data e w'. update_google_sheet_try env w0 data = (Inl e, w') \<longrightarrow>
             update_google_sheet env w0 data = print_line (Sheet_update_failed e) w'"
    by (simp add: update_google_sheet_def)
  have k: "\<forall>w0 data w'. update_google_sheet_try env w0 data = (Inr (), w') \<longrightarrow>
             update_google_sheet env w0 data = w'"
    by (simp add: update_google_sheet_def)
  from r s h(1,2,4,5) c k show ?thesis by blast
qed


text \<open>
  An exception of the date normaliser ends the handler's \<^verbatim>\<open>try\<close> before the writer is
  called. The normaliser raises on a value that is neither falsy nor a string, which has
  no \<^verbatim>\<open>strip\<close>, and on a parser failure of a class that it does not catch.
\<close>

lemma format_date_string_not_string:
  "truthy v \<Longrightarrow> \<forall>s. v \<noteq> PStr s \<Longrightarrow>
   format_date_string parse v = Inl (attribute_error v ''strip'')"
  by (cases v) (simp_all add: format_date_string_def)

lemma handle_email_date_error:
  assumes "request_form ''text'' = Some body" and "body \<noteq> []"
    and "GeminiProcessor_init_try env = Inr ()"
    and "extract_data_from_email env body = Inr (PDict d)"
    and "py_str (dict_get d ''Ardent CER#'' (PStr '''')) \<noteq> []"
    and "format_date_string (parse_fuzzy env) (dict_get d ''Forwarded Date'' PNone) = Inl e"
  shows "handle_email env w request_form
           = ((''Internal server error: '' @ exc_msg e, 500),
              print_line (Critical_error e) (print_line Webhook_received w))"
  using assms
  by (simp add: handle_email_def handle_email_try_def GeminiProcessor_init_ok Let_def)

text \<open>
  C4. For every request with a non-empty body, a successful extraction and a non-empty
  request number for which the date normaliser returns, processing reaches the
  spreadsheet-write stage and \<^verbatim>\<open>handle_email\<close> returns HTTP 200 whether or not the
  write succeeds: every exception raised inside \<^verbatim>\<open>update_google_sheet\<close> is caught and
  logged there, and none reaches the handler. Nothing is assumed about the spreadsheet
  service: an exception that ends the body of the writer's \<^verbatim>\<open>try\<close> is printed, and the
  writer returns. The condition on the date normaliser is not in the claim as it is
  written; the normaliser runs between the check of the request number and the writer,
  inside the handler's \<^verbatim>\<open>try\<close>.
\<close>

theorem handle_email_sheet_errors_swallowed:
  assumes "request_form ''text'' = Some body" and "body \<noteq> []"
    and "GeminiProcessor_init_try env = Inr ()"
    and "extract_data_from_email env body = Inr (PDict d)"
    and "py_str (dict_get d ''Ardent CER#'' (PStr '''')) \<noteq> []"
    and "format_date_string (parse_fuzzy env) (dict_get d ''Forwarded Date'' PNone)
           = Inr forwarded_date"
  shows "fst (handle_email env w request_form) = (success_text, 200)
       \<and> Connecting \<in> set (drop (length (stdout w))
                              (stdout (snd (handle_email env w request_form))))
       \<and> snd (handle_email env w request_form)
           = update_google_sheet env (print_line Webhook_received w)
               (augment_record d forwarded_date
                  (py_str (dict_get d ''Ardent CER#'' (PStr ''''))) (request_form ''from''))
       \<and> (\<forall>w0 data e w'. update_google_sheet_try env w0 data = (Inl e, w') \<longrightarrow>
             update_google_sheet env w0 data = print_line (Sheet_update_failed e) w')
       \<and> (\<forall>w0 data w'. update_google_sheet_try env w0 data = (Inr (), w') \<longrightarrow>
             update_google_sheet env w0 data = w')"
proof -
  have run: "handle_email env w request_form
               = ((success_text, 200),
                  update_google_sheet env (print_line Webhook_received w)
                    (augment_record d forwarded_date
                       (py_str (dict_get d ''Ardent CER#'' (PStr ''''))) (request_form ''from'')))"
    using assms
    by (simp add: handle_email_def handle_email_try_def GeminiProcessor_init_ok Let_def)
  then have status: "snd (fst (handle_email env w request_form)) = 200" by simp
  then have called: "Connecting \<in> set (drop (length (stdout w))
                                          (stdout (snd (handle_email env w request_form))))"
    by (simp add: handle_email_200_iff_writer_called)
  have caught: "\<forall>w0 data e w'. update_google_sheet_try env w0 data = (Inl e, w') \<longrightarrow>
                  update_google_sheet env w0 data = print_line (Sheet_update_failed e) w'"
    by (simp add: update_google_sheet_def)
  have finished: "\<forall>w0 data w'. update_google_sheet_try env w0 data = (Inr (), w') \<longrightarrow>
                update_google_sheet env w0 data = w'"
    by (simp add: update_google_sheet_def)
  from run called caught finished show ?thesis by simp
qed

theorem handle_email_sheet_errors_swallowed_witness:
  "fst (handle_email (example_env\<lparr>api_fault := \<lambda>call. Some (Exc APIError ''Quota exceeded'')\<rparr>)
          example_world example_form) = (success_text, 200)
   \<and> Connecting \<in> set (drop (length (stdout example_world))
       (stdout (snd (handle_email
          (example_env\<lparr>api_fault := \<lambda>call. Some (Exc APIError ''Quota exceeded'')\<rparr>)
          example_world example_form))))
   \<and> snd (handle_email (example_env\<lparr>api_fault := \<lambda>call. Some (Exc APIError ''Quota exceeded'')\<rparr>)
          example_world example_form)
       = \<lparr>sheets = [''CER_Report'' \<mapsto> Map.empty],
          stdout = [Webhook_received, Connecting, Connection_successful,
                    Opening_spreadsheet ''CER_Report'',
                    Sheet_update_failed (Exc APIError ''Quota exceeded'')]\<rparr>"
proof -
  let ?env = "example_env\<lparr>api_fault := \<lambda>call. Some (Exc APIError ''Quota exceeded'')\<rparr>"
  have i: "GeminiProcessor_init_try ?env = Inr ()"
    by (simp add: GeminiProcessor_init_try_def example_env_def)
  have x: "extract_data_from_email ?env ''CER: 5510-001'' = Inr (PDict example_record)"
    by (simp add: extract_data_from_email_def example_env_def example_clean example_json_loads_def)
  have c: "py_str (dict_get example_record ''Ardent CER#'' (PStr '''')) \<noteq> []"
    by (simp add: example_cer)
  have f: "format_date_string (parse_fuzzy ?env) (dict_get example_record ''Forwarded Date'' PNone)
             = Inr (PStr ''1/2/2024'')"
    using example_date by (simp add: example_env_def)
  have q: "update_google_sheet ?env (print_line Webhook_received example_world)
             (augment_record example_record (PStr ''1/2/2024'') ''5510-001'' (example_form ''from''))
           = \<lparr>sheets = [''CER_Report'' \<mapsto> Map.empty],
              stdout = [Webhook_received, Connecting, Connection_successful,
                        Opening_spreadsheet ''CER_Report'',
                        Sheet_update_failed (Exc APIError ''Quota exceeded'')]\<rparr>"
    using example_quota by (simp add: update_google_sheet_def print_line_def)
  have b: "''CER: 5510-001'' \<noteq> []" by simp
  note t = handle_email_sheet_errors_swallowed
         [where request_form = example_form and body = "''CER: 5510-001''" and env = ?env
            and d = example_record and forwarded_date = "PStr ''1/2/2024''" and w = example_world,
          OF example_text b i x c f]
  from t have r1: "fst (handle_email ?env example_world example_form) = (success_text, 200)"
    by blast
  from t have r2: "Connecting \<in> set (drop (length (stdout example_world))
              (stdout (snd (handle_email ?env example_world example_form))))"
    by blast
  from t have "snd (handle_email ?env example_world example_form)
            = update_google_sheet ?env (print_line Webhook_received example_world)
                (augment_record example_record (PStr ''1/2/2024'')
                   (py_str (dict_get example_record ''Ardent CER#'' (PStr '''')))
                   (example_form ''from''))"
    by blast
  then have r3: "snd (handle_email ?env example_world example_form)
       = \<lparr>sheets = [''CER_Report'' \<mapsto> Map.empty],
          stdout = [Webhook_received, Connecting, Connection_successful,
                    Opening_spreadsheet ''CER_Report'',
                    Sheet_update_failed (Exc APIError ''Quota exceeded'')]\<rparr>"
    by (simp add: example_cer q)
  from r1 r2 r3 show ?thesis by blast
qed

text \<open>
  The claim as it is written, with its three conditions only, fails: on the second
  example the body is not empty, the extraction succeeds and the request number is
  \<^verbatim>\<open>5510-001\<close>, the date normaliser raises, and the response has status 500; the
  writer is not called.
\<close>

lemma example_overflow_extract:
  "extract_data_from_email example_overflow_env body = Inr (PDict example_overflow_record)"
  by (simp add: extract_data_from_email_def example_overflow_env_def example_env_def
        clean_json_response_def example_overflow_json_def py_slice_def slice_index_def Let_def)

lemma example_overflow_date:
  "format_date_string (parse_fuzzy example_overflow_env)
     (dict_get example_overflow_record ''Forwarded Date'' PNone)
     = Inl (Exc OverflowError ''Python int too large to convert to C int'')"
  by (simp add: format_date_string_def example_overflow_env_def example_env_def dict_get_def
        example_overflow_record_def example_parse_def py_strip_def is_space_def)

theorem handle_email_date_overflow_500:
  "example_form ''text'' = Some ''CER: 5510-001''
   \<and> extract_data_from_email example_overflow_env ''CER: 5510-001''
       = Inr (PDict example_overflow_record)
   \<and> py_str (dict_get example_overflow_record ''Ardent CER#'' (PStr '''')) = ''5510-001''
   \<and> handle_email example_overflow_env example_world example_form
       = ((''Internal server error: Python int too large to convert to C int'', 500),
          \<lparr>sheets = [''CER_Report'' \<mapsto> Map.empty],
           stdout = [Webhook_received,
                     Critical_error (Exc OverflowError ''Python int too large to convert to C int'')]\<rparr>)
   \<and> snd (fst (handle_email example_overflow_env example_world example_form)) \<noteq> 200"
proof -
  have i: "GeminiProcessor_init_try example_overflow_env = Inr ()"
    by (simp add: GeminiProcessor_init_try_def example_overflow_env_def example_env_def)
  have c: "py_str (dict_get example_overflow_record ''Ardent CER#'' (PStr '''')) = ''5510-001''"
    by (simp add: dict_get_def example_overflow_record_def)
  have c': "py_str (dict_get example_overflow_record ''Ardent CER#'' (PStr '''')) \<noteq> []"
    by (simp add: c)
  have "handle_email example_overflow_env example_world example_form
          = ((''Internal server error: '' @ exc_msg (Exc OverflowError ''Python int too large to convert to C int''), 500),
             print_line (Critical_error (Exc OverflowError ''Python int too large to convert to C int''))
               (print_line Webhook_received example_world))"
    using example_text _ i example_overflow_extract c' example_overflow_date
    by (rule handle_email_date_error) simp
  then show ?thesis
    by (simp add: example_text example_overflow_extract c print_line_def example_world_def)
qed


subsection \<open>The row appended\<close>

lemma map_of_dict_set:
  "map_of (dict_set d k v) k' = (if k' = k then Some v else map_of d k')"
  by (induction d) auto

lemma dict_get_dict_set:
  "dict_get (dict_set d k v) k' dflt = (if k' = k then v else dict_get d k' dflt)"
  by (simp add: dict_get_def map_of_dict_set)

lemma dict_get_Some: "map_of d k = Some v \<Longrightarrow> dict_get d k dflt = v"
  by (simp add: dict_get_def)

text \<open>The row prepared from a completed record.\<close>

lemma row_to_add_augment_record:
  "row_to_add (augment_record d forwarded_date cer_number email_from) market =
     [forwarded_date, market,
      dict_get d ''Ardent CER#'' (PStr ''''), dict_get d ''Capital $'' (PStr ''''),
      dict_get d ''Notes'' (PStr ''''), dict_get d ''Mfg'' (PStr ''''),
      dict_get d ''Model'' (PStr ''''), dict_get d ''ETA/Install'' (PStr ''''),
      dict_get d ''URL'' (PStr ''''), form_value email_from]"
  by (simp add: row_to_add_def augment_record_def dict_get_dict_set)

lemma market_augment_record:
  "dict_get (augment_record d forwarded_date cer_number email_from) ''Market'' dflt
     = PStr (get_market_from_cer (PStr cer_number))"
  by (simp add: augment_record_def dict_get_dict_set del: get_market_from_cer.simps)

text \<open>The writer when no call fails and the spreadsheet exists.\<close>

lemma update_google_sheet_appends:
  assumes client: "get_gspread_client env = Inr ()"
    and no_fault: "\<forall>call. api_fault env call = None"
    and name: "sheet_name = (case GOOGLE_SHEET_NAME env of None \<Rightarrow> ''CER_Report'' | Some n \<Rightarrow> n)"
    and tabs: "sheets w sheet_name = Some tabs"
    and market: "market = dict_get data ''Market'' (PStr ''Unknown'')"
  shows "sheets (update_google_sheet env w data)
           = (sheets w)(sheet_name \<mapsto>
                tabs(market \<mapsto> (case tabs market of None \<Rightarrow> [header] | Some rows \<Rightarrow> rows)
                                 @ [row_to_add data market]))"
proof (cases "tabs market")
  case None
  with assms show ?thesis
    by (simp add: update_google_sheet_def update_google_sheet_try_def get_or_create_worksheet_def
          client_open_def spreadsheet_worksheet_def spreadsheet_add_worksheet_def
          worksheet_append_row_def print_line_def Let_def)
next
  case (Some rows)
  with assms show ?thesis
    by (simp add: update_google_sheet_def update_google_sheet_try_def get_or_create_worksheet_def
          client_open_def spreadsheet_worksheet_def worksheet_append_row_def print_line_def Let_def)
qed

text \<open>
  C6. For every successfully processed request whose extraction result has all eight
  fields, the row appended to the spreadsheet has ten columns, in the order Forwarded
  Date, Market, Ardent CER#, Capital $, Notes, Mfg, Model, ETA/Install, URL, Source
  Email. The statement proved: the first column holds the normalised date, that is
  \<^verbatim>\<open>format_date_string\<close> of the extracted value, which the handler writes into the
  record before the writer reads it; the second holds the market of the request number;
  the next seven hold the extracted values unchanged; the last holds the sender. The
  row goes after the last row of the tab of the market, or after the header row when
  the tab is new. The request is processed successfully when no call to the
  spreadsheet service fails and the spreadsheet exists.
\<close>

theorem handle_email_row:
  assumes "request_form ''text'' = Some body" and "body \<noteq> []"
    and "GeminiProcessor_init_try env = Inr ()"
    and "extract_data_from_email env body = Inr (PDict d)"
    and "map_of d ''Forwarded Date'' = Some forwarded_date"
    and "map_of d ''Ardent CER#'' = Some cer"
    and "map_of d ''Capital $'' = Some capital"
    and "map_of d ''Notes'' = Some remarks"
    and "map_of d ''Mfg'' = Some mfg"
    and "map_of d ''Model'' = Some model"
    and "map_of d ''ETA/Install'' = Some eta"
    and "map_of d ''URL'' = Some url"
    and "py_str cer \<noteq> []"
    and "format_date_string (parse_fuzzy env) forwarded_date = Inr normalized_date"
    and "get_gspread_client env = Inr ()"
    and "\<forall>call. api_fault env call = None"
    and "sheet_name = (case GOOGLE_SHEET_NAME env of None \<Rightarrow> ''CER_Report'' | Some n \<Rightarrow> n)"
    and "sheets w sheet_name = Some tabs"
    and "market = PStr (get_market_from_cer (PStr (py_str cer)))"
  shows "fst (handle_email env w request_form) = (success_text, 200)
       \<and> sheets (snd (handle_email env w request_form))
           = (sheets w)(sheet_name \<mapsto>
                tabs(market \<mapsto> (case tabs market of None \<Rightarrow> [header] | Some rows \<Rightarrow> rows)
                       @ [[normalized_date, market, cer, capital, remarks, mfg, model, eta, url,
                           form_value (request_form ''from'')]]))
       \<and> header = map PStr [''Forwarded Date'', ''Market'', ''Ardent CER#'', ''Capital $'', ''Notes'',
                      ''Mfg'', ''Model'', ''ETA/Install'', ''URL'', ''Source Email'']"
proof -
  let ?w0 = "print_line Webhook_received w"
  let ?data = "augment_record d normalized_date (py_str cer) (request_form ''from'')"
  have cer: "py_str (dict_get d ''Ardent CER#'' (PStr '''')) = py_str cer"
    using assms(6) by (simp add: dict_get_Some)
  have date: "dict_get d ''Forwarded Date'' PNone = forwarded_date"
    using assms(5) by (simp add: dict_get_Some)
  have run: "handle_email env w request_form
               = ((success_text, 200), update_google_sheet env ?w0 ?data)"
    using assms(1-4,13,14) cer date
    by (simp add: handle_email_def handle_email_try_def GeminiProcessor_init_ok Let_def)
  have m: "market = dict_get ?data ''Market'' (PStr ''Unknown'')"
    using assms(19) by (simp add: market_augment_record)
  have s: "sheets ?w0 sheet_name = Some tabs"
    using assms(18) by (simp add: print_line_def)
  have row: "row_to_add ?data market
               = [normalized_date, market, cer, capital, remarks, mfg, model, eta, url,
                  form_value (request_form ''from'')]"
    using assms(6-12) by (simp add: row_to_add_augment_record dict_get_Some)
  have "sheets (update_google_sheet env ?w0 ?data)
          = (sheets ?w0)(sheet_name \<mapsto>
                tabs(market \<mapsto> (case tabs market of None \<Rightarrow> [header] | Some rows \<Rightarrow> rows)
                                 @ [row_to_add ?data market]))"
    using assms(15,16,17) s m by (rule update_google_sheet_appends)
  with run row show ?thesis by (simp add: print_line_def header_def)
qed

text \<open>The example, with a service that accepts every call.\<close>

lemma example_client: "get_gspread_client example_env = Inr ()"
  by (simp add: get_gspread_client_def example_env_def example_json_loads_def example_json_def)

lemma example_sheet_name: "GOOGLE_SHEET_NAME example_env = None"
  by (simp add: example_env_def)

lemma example_no_fault: "api_fault example_env call = None"
  by (simp add: example_env_def)

lemma example_write:
  "update_google_sheet example_env (print_line Webhook_received example_world)
      (augment_record example_record (PStr ''1/2/2024'') ''5510-001'' (example_form ''from''))
     = \<lparr>sheets = [''CER_Report'' \<mapsto> [PStr ''East Texas'' \<mapsto>
                   [header,
                    [PStr ''1/2/2024'', PStr ''East Texas'', PStr ''5510-001'', PStr ''315000'',
                     PStr ''OR Tables'', PStr ''Stryker'', PStr ''T7'', PStr ''Q3'',
                     PStr ''http://erp/1'', PStr ''tim@example.com'']]]],
        stdout = [Webhook_received, Connecting, Connection_successful,
                  Opening_spreadsheet ''CER_Report'', Spreadsheet_opened,
                  Market_determined (PStr ''East Texas''),
                  Creating_worksheet (PStr ''East Texas''), Header_added,
                  Preparing_row
                    [PStr ''1/2/2024'', PStr ''East Texas'', PStr ''5510-001'', PStr ''315000'',
                     PStr ''OR Tables'', PStr ''Stryker'', PStr ''T7'', PStr ''Q3'',
                     PStr ''http://erp/1'', PStr ''tim@example.com''],
                  Wrote_data (PStr ''East Texas'')]\<rparr>"
  unfolding example_data
  by (simp add: update_google_sheet_def update_google_sheet_try_def example_client
        get_or_create_worksheet_def client_open_def spreadsheet_worksheet_def
        spreadsheet_add_worksheet_def worksheet_append_row_def print_line_def Let_def
        example_sheet_name example_no_fault example_world_def dict_get_def row_to_add_def)

lemma example_run:
  "handle_email example_env example_world example_form
     = ((success_text, 200),
        update_google_sheet example_env (print_line Webhook_received example_world)
          (augment_record example_record (PStr ''1/2/2024'') ''5510-001'' (example_form ''from'')))"
  using example_text example_init example_extract [of "''CER: 5510-001''"] example_cer example_date
  by (simp add: handle_email_def handle_email_try_def GeminiProcessor_init_ok Let_def)

theorem handle_email_row_witness:
  "fst (handle_email example_env example_world example_form) = (success_text, 200)
   \<and> sheets (snd (handle_email example_env example_world example_form))
       = [''CER_Report'' \<mapsto> [PStr ''East Texas'' \<mapsto>
            [header,
             [PStr ''1/2/2024'', PStr ''East Texas'', PStr ''5510-001'', PStr ''315000'',
              PStr ''OR Tables'', PStr ''Stryker'', PStr ''T7'', PStr ''Q3'',
              PStr ''http://erp/1'', PStr ''tim@example.com'']]]]"
proof -
  have d: "format_date_string (parse_fuzzy example_env) (PStr ''2024-01-02'') = Inr (PStr ''1/2/2024'')"
    using example_date by (simp add: dict_get_def example_record_def)
  have c: "py_str (PStr ''5510-001'') \<noteq> []" by simp
  have n: "''CER_Report'' = (case GOOGLE_SHEET_NAME example_env of None \<Rightarrow> ''CER_Report'' | Some n \<Rightarrow> n)"
    by (simp add: example_env_def)
  have f: "\<forall>call. api_fault example_env call = None" by (simp add: example_no_fault)
  have s: "sheets example_world ''CER_Report'' = Some Map.empty" by (simp add: example_world_def)
  have m: "PStr ''East Texas'' = PStr (get_market_from_cer (PStr (py_str (PStr ''5510-001''))))"
    using example_market by simp
  from handle_email_row
         [where request_form = example_form and body = "''CER: 5510-001''" and env = example_env
            and d = example_record and w = example_world
            and forwarded_date = "PStr ''2024-01-02''" and cer = "PStr ''5510-001''"
            and capital = "PStr ''315000''" and remarks = "PStr ''OR Tables''"
            and mfg = "PStr ''Stryker''" and model = "PStr ''T7''" and eta = "PStr ''Q3''"
            and url = "PStr ''http://erp/1''" and normalized_date = "PStr ''1/2/2024''"
            and sheet_name = "''CER_Report''" and tabs = Map.empty
            and market = "PStr ''East Texas''",
          OF example_text _ example_init example_extract _ _ _ _ _ _ _ _ c d example_client f n s m]
  show ?thesis
    by (simp add: example_record_def example_world_def example_form_def form_value_def)
qed

text \<open>
  The claim as it is written fails on the example: the extraction returns the date
  \<^verbatim>\<open>2024-01-02\<close>, the request is processed with status 200, and the row appended
  starts with \<^verbatim>\<open>1/2/2024\<close>; the extracted value is in no column.
\<close>

theorem handle_email_row_date_rewritten:
  "extract_data_from_email example_env ''CER: 5510-001'' = Inr (PDict example_record)
   \<and> map_of example_record ''Forwarded Date'' = Some (PStr ''2024-01-02'')
   \<and> fst (handle_email example_env example_world example_form) = (success_text, 200)
   \<and> sheets (snd (handle_email example_env example_world example_form))
       = [''CER_Report'' \<mapsto> [PStr ''East Texas'' \<mapsto>
            [header,
             [PStr ''1/2/2024'', PStr ''East Texas'', PStr ''5510-001'', PStr ''315000'',
              PStr ''OR Tables'', PStr ''Stryker'', PStr ''T7'', PStr ''Q3'',
              PStr ''http://erp/1'', PStr ''tim@example.com'']]]]
   \<and> PStr ''2024-01-02''
       \<notin> set [PStr ''1/2/2024'', PStr ''East Texas'', PStr ''5510-001'', PStr ''315000'',
              PStr ''OR Tables'', PStr ''Stryker'', PStr ''T7'', PStr ''Q3'',
              PStr ''http://erp/1'', PStr ''tim@example.com'']"
  unfolding example_run example_write
  by (simp add: example_extract example_record_def)


end
